theory Spec2Isabelle
  imports Complex_Main "HOL-Library.Word"
begin

section \<open>Data model\<close>

text \<open>
  Controller identities are 128-bit UUIDs; switches, ports and beacon hash values are
  Python integers. A host address is used as a dictionary key in two forms, the parsed
  \<open>IPv4Address\<close> object and the dotted string it was parsed from; the two are different
  keys of a Python dictionary.
\<close>

type_synonym uuid = "128 word"
type_synonym switch_id = int
type_synonym port_no = int
type_synonym hash_val = int

datatype host_address = IPv4Address "32 word" | IPv4Str "32 word"

text \<open>
  The first index of the Q and KSPL tables is a sector id or an edge
  \<open>(switch, port)\<close>. Q-values, rewards and bandwidth averages are Python floats; they
  are taken as real numbers here, so rounding is not part of the model.
\<close>

datatype table_key = SectorKey uuid | EdgeKey switch_id port_no

text \<open>
  A global path search id is the tuple
  \<open>(source controller, source address, target address, scenario type)\<close>.
\<close>

type_synonym global_path_search_id = "uuid \<times> 32 word \<times> 32 word \<times> string"

text \<open>Exceptions of the source that the model distinguishes.\<close>

datatype exn =
    ValueError string
  | KeyError string
  | AssertionError string
  | AttributeError string
  | IndexError string
  | ImplementationTaskExists
  | PathNotFound
  | OtherException string

text \<open>
  Service objects are known to this module by their identity (\<open>id(obj)\<close>) only. The
  keys of the innermost \<open>mapped_services\<close> dictionaries are opaque here.
\<close>

type_synonym service_id = nat
type_synonym entities_ids_pair = "string \<times> string"

text \<open>The module-level variables of \<open>archsdn.engine.globals\<close>.\<close>

record globals =
  QValues :: "table_key \<rightharpoonup> (host_address \<rightharpoonup> real)"
  kspl :: "table_key \<rightharpoonup> (host_address \<rightharpoonup> int option)"
  scenario_implementation_tasks :: "string \<rightharpoonup> (string \<rightharpoonup> global_path_search_id set)"
  beacons_hash_table :: "(hash_val \<times> (switch_id \<times> port_no)) list"
  active_scenarios :: "global_path_search_id \<rightharpoonup> (service_id list \<times> uuid list)"
  mapped_services :: "((string \<times> string) \<times> (entities_ids_pair \<times> service_id) list) list"
  recycled_cookie_ids :: "int list"
  cookie_id_counter :: int
  recycled_mpls_labels :: "int list"
  mpls_label_id_counter :: int

definition q_alpha :: real where
  "q_alpha = 9 / 10"

definition q_beta :: real where
  "q_beta = 1 / 10"

section \<open>Q-values and known shortest path lengths\<close>

text \<open>Reading a cell that does not exist creates it, so the readers return the new state too.\<close>

definition get_known_shortest_path ::
  "table_key \<Rightarrow> host_address \<Rightarrow> globals \<Rightarrow> int option \<times> globals" where
  "get_known_shortest_path sector_id host_address g =
     (let g1 = (if kspl g sector_id = None
                then g\<lparr>kspl := (kspl g)(sector_id \<mapsto> [host_address \<mapsto> None])\<rparr>
                else g);
          row = the (kspl g1 sector_id);
          g2 = (if row host_address = None
                then g1\<lparr>kspl := (kspl g1)(sector_id \<mapsto> row(host_address \<mapsto> None))\<rparr>
                else g1)
      in (the (the (kspl g2 sector_id) host_address), g2))"

definition set_known_shortest_path ::
  "table_key \<Rightarrow> host_address \<Rightarrow> int \<Rightarrow> globals \<Rightarrow> globals" where
  "set_known_shortest_path sector_id host_address path_length g =
     (case kspl g sector_id of
        None \<Rightarrow> g\<lparr>kspl := (kspl g)(sector_id \<mapsto> [host_address \<mapsto> Some path_length])\<rparr>
      | Some row \<Rightarrow>
          g\<lparr>kspl := (kspl g)(sector_id \<mapsto> row(host_address \<mapsto> Some path_length))\<rparr>)"

definition get_q_value :: "table_key \<Rightarrow> host_address \<Rightarrow> globals \<Rightarrow> real \<times> globals" where
  "get_q_value sector_id host_address g =
     (let g' = (case QValues g sector_id of
                  None \<Rightarrow> g\<lparr>QValues := (QValues g)(sector_id \<mapsto> [host_address \<mapsto> 0])\<rparr>
                | Some row \<Rightarrow>
                    (if row host_address = None
                     then g\<lparr>QValues := (QValues g)(sector_id \<mapsto> row(host_address \<mapsto> 0))\<rparr>
                     else g))
      in (the (the (QValues g' sector_id) host_address), g'))"

definition set_q_value :: "table_key \<Rightarrow> host_address \<Rightarrow> real \<Rightarrow> globals \<Rightarrow> globals" where
  "set_q_value sector_id host_address v g =
     (case QValues g sector_id of
        None \<Rightarrow> g\<lparr>QValues := (QValues g)(sector_id \<mapsto> [host_address \<mapsto> v])\<rparr>
      | Some row \<Rightarrow>
          (if row host_address = None
           then g\<lparr>QValues := (QValues g)(sector_id \<mapsto> row(host_address \<mapsto> v))\<rparr>
           else g))"

definition calculate_new_qvalue :: "real \<Rightarrow> real \<Rightarrow> real \<Rightarrow> real" where
  "calculate_new_qvalue old_value forward_value reward =
     old_value + q_alpha * (reward + q_beta * forward_value - old_value)"

section \<open>Identifier allocators\<close>

text \<open>
  The compaction loop shared by both \<open>free\<close> functions: while the pool is not empty and
  its maximum equals the counter, remove that maximum and decrement the counter.
\<close>

function compact :: "int \<Rightarrow> int list \<Rightarrow> int \<times> int list" where
  "compact counter pool =
     (if length pool > 0
      then (if counter = Max (set pool)
            then compact (counter - 1) (remove1 (Max (set pool)) pool)
            else (counter, pool))
      else (counter, pool))"
  by pat_completeness auto
termination
proof (relation "measure (\<lambda>(counter, pool). length pool)")
  show "wf (measure (\<lambda>(counter, pool). length pool))"
    by simp
next
  fix counter :: int and pool :: "int list"
  assume "0 < length pool"
  then have "Max (set pool) \<in> set pool"
    by (intro Max_in) auto
  then have "length (remove1 (Max (set pool)) pool) < length pool"
    by (simp add: length_remove1) (cases pool; simp)
  then show "((counter - 1, remove1 (Max (set pool)) pool), (counter, pool))
               \<in> measure (\<lambda>(counter, pool). length pool)"
    by simp
qed

declare compact.simps [simp del]

definition alloc_cookie_id :: "globals \<Rightarrow> (exn + int) \<times> globals" where
  "alloc_cookie_id g =
     (if cookie_id_counter g = 0xFFFFFFFFFFFFFFFF
      then (Inl (ValueError ''No more cookies left...''), g)
      else if length (recycled_cookie_ids g) \<noteq> 0
      then (Inr (last (recycled_cookie_ids g)),
            g\<lparr>recycled_cookie_ids := butlast (recycled_cookie_ids g)\<rparr>)
      else (Inr (cookie_id_counter g + 1), g\<lparr>cookie_id_counter := cookie_id_counter g + 1\<rparr>))"

definition free_cookie_id :: "int \<Rightarrow> globals \<Rightarrow> (exn + unit) \<times> globals" where
  "free_cookie_id cookie_id g =
     (if cookie_id \<le> 0
      then (Inl (ValueError ''Cookies cannot be zero or negative.''), g)
      else if cookie_id > cookie_id_counter g
      then (Inl (ValueError ''That cookie was not allocated.''), g)
      else if cookie_id \<in> set (recycled_cookie_ids g)
      then (Inl (ValueError ''Cookie already free.''), g)
      else (case compact (cookie_id_counter g) (recycled_cookie_ids g @ [cookie_id]) of
              (counter, pool) \<Rightarrow>
                (Inr (), g\<lparr>recycled_cookie_ids := pool, cookie_id_counter := counter\<rparr>)))"

definition alloc_mpls_label_id :: "globals \<Rightarrow> (exn + int) \<times> globals" where
  "alloc_mpls_label_id g =
     (if mpls_label_id_counter g = 0x100000
      then (Inl (ValueError ''No MPLS labels available.''), g)
      else if length (recycled_mpls_labels g) \<noteq> 0
      then (Inr (last (recycled_mpls_labels g)),
            g\<lparr>recycled_mpls_labels := butlast (recycled_mpls_labels g)\<rparr>)
      else (Inr (mpls_label_id_counter g + 1),
            g\<lparr>mpls_label_id_counter := mpls_label_id_counter g + 1\<rparr>))"

definition free_mpls_label_id :: "int \<Rightarrow> globals \<Rightarrow> (exn + unit) \<times> globals" where
  "free_mpls_label_id label_id g =
     (if label_id \<le> 16
      then (Inl (ValueError ''Mpls label ID cannot be lower than 16''), g)
      else if label_id > mpls_label_id_counter g \<or> label_id \<in> set (recycled_mpls_labels g)
      then (Inl (ValueError ''Label ID was not allocated.''), g)
      else (case compact (mpls_label_id_counter g) (recycled_mpls_labels g @ [label_id]) of
              (counter, pool) \<Rightarrow>
                (Inr (), g\<lparr>recycled_mpls_labels := pool, mpls_label_id_counter := counter\<rparr>)))"

text \<open>The values the module's variables have when it is loaded.\<close>

definition initial_globals :: globals where
  "initial_globals =
     \<lparr> QValues = Map.empty,
       kspl = Map.empty,
       scenario_implementation_tasks =
         [''IPv4'' \<mapsto> [''ICMP'' \<mapsto> {}, ''UDP'' \<mapsto> {}, ''TCP'' \<mapsto> {}, ''*'' \<mapsto> {}],
          ''MPLS'' \<mapsto> [''*'' \<mapsto> {}]],
       beacons_hash_table = [],
       active_scenarios = Map.empty,
       mapped_services =
         [((''IPv4'', ''ICMP''), []), ((''IPv4'', ''UDP''), []), ((''IPv4'', ''TCP''), []),
          ((''IPv4'', ''*''), []), ((''MPLS'', ''OneWay''), []), ((''MPLS'', ''TwoWay''), [])],
       recycled_cookie_ids = [],
       cookie_id_counter = 0,
       recycled_mpls_labels = [],
       mpls_label_id_counter = 16 \<rparr>"

section \<open>Allocation traces\<close>

text \<open>
  A trace is a sequence of calls to one allocator. Running it from the initial state keeps
  the list of identifiers that were handed out and not yet given back; a call that raises
  leaves both the allocator and that list as they were.
\<close>

datatype alloc_op = Alloc | Free int

fun cookie_step :: "alloc_op \<Rightarrow> globals \<times> int list \<Rightarrow> globals \<times> int list" where
  "cookie_step Alloc (g, outstanding) =
     (case alloc_cookie_id g of
        (Inr i, g') \<Rightarrow> (g', i # outstanding)
      | (Inl e, g') \<Rightarrow> (g', outstanding))"
| "cookie_step (Free i) (g, outstanding) =
     (case free_cookie_id i g of
        (Inr u, g') \<Rightarrow> (g', remove1 i outstanding)
      | (Inl e, g') \<Rightarrow> (g', outstanding))"

fun mpls_step :: "alloc_op \<Rightarrow> globals \<times> int list \<Rightarrow> globals \<times> int list" where
  "mpls_step Alloc (g, outstanding) =
     (case alloc_mpls_label_id g of
        (Inr i, g') \<Rightarrow> (g', i # outstanding)
      | (Inl e, g') \<Rightarrow> (g', outstanding))"
| "mpls_step (Free i) (g, outstanding) =
     (case free_mpls_label_id i g of
        (Inr u, g') \<Rightarrow> (g', remove1 i outstanding)
      | (Inl e, g') \<Rightarrow> (g', outstanding))"

text \<open>
  The invariant of an allocator with lower bound \<open>lb\<close>: the pool holds distinct
  identifiers strictly between the bound and the counter, and the outstanding identifiers are
  exactly the rest of the interval \<open>(lb, counter]\<close>.
\<close>

definition alloc_inv :: "int \<Rightarrow> int \<Rightarrow> int list \<Rightarrow> int list \<Rightarrow> bool" where
  "alloc_inv lb counter pool outstanding \<longleftrightarrow>
     distinct pool \<and> (\<forall>x\<in>set pool. lb < x \<and> x < counter) \<and> lb \<le> counter \<and>
     distinct outstanding \<and> set outstanding = {lb<..counter} - set pool"

definition run_cookie_ops :: "alloc_op list \<Rightarrow> globals \<times> int list" where
  "run_cookie_ops ops = fold cookie_step ops (initial_globals, [])"

definition run_mpls_ops :: "alloc_op list \<Rightarrow> globals \<times> int list" where
  "run_mpls_ops ops = fold mpls_step ops (initial_globals, [])"

section \<open>Scenario registry\<close>

text \<open>
  Modelled from the spec: \<open>is_scenario_active\<close> is called by the request handlers but is
  not defined in the sources at hand; section 4.4 of the specification describes it as the
  membership test of the registry \<open>active_scenarios\<close>.
\<close>

definition is_scenario_active :: "global_path_search_id \<Rightarrow> globals \<Rightarrow> bool" where
  "is_scenario_active gpsid g \<longleftrightarrow> active_scenarios g gpsid \<noteq> None"

text \<open>
  Modelled from the spec: \<open>set_active_scenario\<close> is not defined in the sources at hand;
  section 4.4 describes it as an insertion for which a collision is a programming error,
  taken here as a failed assertion.
\<close>

definition set_active_scenario ::
  "global_path_search_id \<Rightarrow> service_id list \<times> uuid list \<Rightarrow> globals \<Rightarrow> (exn + unit) \<times> globals" where
  "set_active_scenario gpsid scenario_info g =
     (if active_scenarios g gpsid \<noteq> None
      then (Inl (AssertionError ''scenario is already active''), g)
      else (Inr (), g\<lparr>active_scenarios := (active_scenarios g)(gpsid \<mapsto> scenario_info)\<rparr>))"

text \<open>
  Modelled from the spec: \<open>get_active_scenario\<close> is not defined in the sources at hand;
  section 4.4 describes it as a read, or a read-and-remove when \<open>pop\<close> is set. A missing
  key is the \<open>KeyError\<close> of a dictionary access.
\<close>

definition get_active_scenario ::
  "global_path_search_id \<Rightarrow> bool \<Rightarrow> globals \<Rightarrow> (exn + service_id list \<times> uuid list) \<times> globals" where
  "get_active_scenario gpsid pop g =
     (case active_scenarios g gpsid of
        None \<Rightarrow> (Inl (KeyError ''global_path_search_id''), g)
      | Some scenario_info \<Rightarrow>
          (Inr scenario_info,
           if pop then g\<lparr>active_scenarios := (active_scenarios g)(gpsid := None)\<rparr> else g))"

section \<open>Peer-to-peer request server\<close>

text \<open>
  A decoded request is an arbitrary Python value; the handler looks only at whether it is a
  tuple, at its length and at whether its first component is a string.
\<close>

datatype py_value = PyStr string | PyTuple "py_value list" | PyOther

text \<open>The keys of the dispatch table \<open>_requests\<close>.\<close>

definition requests_names :: "string list" where
  "requests_names =
     [''req_local_time'', ''publish_event'', ''query_address_info'', ''activate_scenario'',
      ''terminate_scenario'']"

text \<open>\<open>str(ex)\<close> for the exceptions of the model.\<close>

fun exn_str :: "exn \<Rightarrow> string" where
  "exn_str (ValueError m) = m"
| "exn_str (KeyError m) = CHR 0x27 # m @ [CHR 0x27]"
| "exn_str (AssertionError m) = m"
| "exn_str (AttributeError m) = m"
| "exn_str (IndexError m) = m"
| "exn_str ImplementationTaskExists = []"
| "exn_str PathNotFound = []"
| "exn_str (OtherException m) = m"

text \<open>
  \<open>repr\<close> of a string that has no quote, backslash or unprintable character, as is the case
  of every key of the dispatch table.
\<close>

definition repr_str :: "string \<Rightarrow> string" where
  "repr_str s = CHR 0x27 # s @ [CHR 0x27]"

text \<open>The four assertions on the decoded request, in the order of the source.\<close>

definition check_request :: "py_value \<Rightarrow> exn + (string \<times> py_value \<times> py_value)" where
  "check_request request =
     (case request of
        PyTuple items \<Rightarrow>
          (if length items \<noteq> 3 then Inl (AssertionError ''request length is not equal to 3'')
           else (case items ! 0 of
                   PyStr func_name \<Rightarrow>
                     (if func_name \<notin> set requests_names
                      then Inl (AssertionError ''function name is not registered '')
                      else Inr (func_name, items ! 1, items ! 2))
                 | _ \<Rightarrow> Inl (AssertionError ''request function name parameter is not string'')))
      | _ \<Rightarrow> Inl (AssertionError ''request type is not tuple''))"

text \<open>
  One round of \<open>client_handler\<close> after the frame has been received and decoded: the
  answer that is sent back. \<open>debug\<close> is \<open>sys.flags.debug\<close>; \<open>handlers\<close> are the
  functions of the dispatch table, which act on the state \<open>'w\<close> of the controller.
  \<open>func_name\<close> is still \<open>None\<close> when an assertion fails.
\<close>

definition handle_request ::
  "bool \<Rightarrow> (string \<Rightarrow> py_value \<Rightarrow> py_value \<Rightarrow> 'w \<Rightarrow> (exn + py_value) \<times> 'w) \<Rightarrow> py_value \<Rightarrow> 'w
     \<Rightarrow> (int \<times> py_value) \<times> 'w" where
  "handle_request debug handlers request w =
     (let (func_name, outcome) =
            (case check_request request of
               Inl ex \<Rightarrow> (None, (Inl ex, w))
             | Inr (name, args, kwargs) \<Rightarrow> (Some name, handlers name args kwargs w))
      in (case outcome of
            (Inr result, w') \<Rightarrow> ((0, result), w')
          | (Inl (KeyError k), w') \<Rightarrow>
              ((1, PyStr (''Unknown Request: '' @ [CHR 0x27]
                          @ (case func_name of None \<Rightarrow> ''None'' | Some name \<Rightarrow> repr_str name)
                          @ [CHR 0x27])), w')
          | (Inl ex, w') \<Rightarrow>
              ((1, PyStr (if debug then ''Unknown Request: '' @ exn_str ex
                          else ''Internal Error. Cannot process request.'')), w')))"

section \<open>Implementation tasks and beacon hashes\<close>

text \<open>
  The constructor of the task token: it raises when a layer is unknown or the task is already
  registered, and registers the task otherwise.
\<close>

definition register_implementation_task ::
  "global_path_search_id \<Rightarrow> string \<Rightarrow> string \<Rightarrow> globals \<Rightarrow> exn + globals" where
  "register_implementation_task taskID first_layer second_layer g =
     (case scenario_implementation_tasks g first_layer of
        None \<Rightarrow> Inl (AttributeError ''first_layer argument is invalid.'')
      | Some layer \<Rightarrow>
          (case layer second_layer of
             None \<Rightarrow> Inl (AttributeError ''second_layer argument is invalid.'')
           | Some tasks \<Rightarrow>
               (if taskID \<in> tasks then Inl ImplementationTaskExists
                else Inr (g\<lparr>scenario_implementation_tasks :=
                            (scenario_implementation_tasks g)
                              (first_layer \<mapsto> layer(second_layer \<mapsto> insert taskID tasks))\<rparr>))))"

text \<open>
  The destructor of a token that was registered: it takes the task out of its set. It runs
  when the activation returns, since the token is a local variable of the activation.
\<close>

definition delete_implementation_task ::
  "global_path_search_id \<Rightarrow> string \<Rightarrow> string \<Rightarrow> globals \<Rightarrow> globals" where
  "delete_implementation_task taskID first_layer second_layer g =
     (case scenario_implementation_tasks g first_layer of
        None \<Rightarrow> g
      | Some layer \<Rightarrow>
          (case layer second_layer of
             None \<Rightarrow> g
           | Some tasks \<Rightarrow>
               g\<lparr>scenario_implementation_tasks :=
                   (scenario_implementation_tasks g)
                     (first_layer \<mapsto> layer(second_layer \<mapsto> tasks - {taskID}))\<rparr>))"

definition get_hash_val :: "switch_id \<Rightarrow> port_no \<Rightarrow> globals \<Rightarrow> exn + hash_val" where
  "get_hash_val switch_id port_id g =
     (case filter (\<lambda>item. snd item = (switch_id, port_id)) (beacons_hash_table g) of
        [] \<Rightarrow> Inl (KeyError ''No hash available for specified key.'')
      | res # _ \<Rightarrow> Inr (fst res))"

section \<open>External collaborators of the activation engine\<close>

datatype entity_id = SectorEntity uuid | HostEntity string

text \<open>
  A path returned by the topology model: its \<open>path\<close> attribute, its length \<open>len(p)\<close>,
  and the attributes the engine reads.
\<close>

record local_path =
  path :: "(switch_id \<times> port_no \<times> port_no) list"
  path_len :: nat
  remaining_bandwidth_average :: real
  entity_a :: entity_id
  entity_b :: entity_id

text \<open>The answer of the central registry to an address query.\<close>

record host_info =
  host_controller_id :: uuid
  host_name :: string

text \<open>The argument of \<open>activate_scenario\<close>, a dictionary with four keys.\<close>

record activate_request =
  global_path_search_id :: global_path_search_id
  sector_requesting_service :: uuid
  mpls_label :: int
  hash_val :: int

text \<open>
  The dictionary a peer answers with. Only \<open>success\<close> is always read; the other keys are
  looked up when they are needed, and a missing one raises \<open>KeyError\<close>.
\<close>

record peer_reply =
  reply_success :: bool
  reply_q_value :: "real option"
  reply_path_length :: "int option"
  reply_reason :: "string option"

text \<open>
  The modules this engine calls and whose code is outside the sources at hand: the central
  registry, the local database, the topology model, the peer proxies and the service
  installers. They are parameters of the model. Each acts on a state \<open>'x\<close> of its own (the
  topology with its bandwidth reservations, the connections, the peers); the installers also
  act on the variables of this module. A call that can raise returns a sum. The set of
  adjacent sectors is given as the list of its elements in the order of iteration. Where the
  engine builds a set of sector ids itself and iterates over it, the order is the one of the
  ranks \<open>hash_order\<close>, which stand for the places the hashes of the ids take in the set;
  any order of the elements comes from some ranks. One activation is followed from its call
  to its reply; what other tasks do to the variables of this module while it waits for a peer
  is not part of the model.
\<close>

record 'x env =
  this_controller_id :: uuid
  hash_order :: "uuid \<Rightarrow> nat"
  query_address_info :: "32 word \<Rightarrow> 'x \<Rightarrow> (exn + host_info) \<times> 'x"
  query_sectors_ids :: "'x \<Rightarrow> uuid list"
  query_edges_to_sector :: "uuid \<Rightarrow> 'x \<Rightarrow> (switch_id \<times> port_no \<times> hash_val) list"
  query_entity_is_sector :: "entity_id \<Rightarrow> 'x \<Rightarrow> bool"
  construct_bidirectional_path ::
    "entity_id \<Rightarrow> entity_id \<Rightarrow> int \<Rightarrow> int \<Rightarrow> hash_val option \<Rightarrow> 'x \<Rightarrow> (exn + local_path) \<times> 'x"
  construct_unidirectional_path ::
    "entity_id \<Rightarrow> entity_id \<Rightarrow> int \<Rightarrow> hash_val option \<Rightarrow> 'x \<Rightarrow> (exn + local_path) \<times> 'x"
  get_controller_proxy :: "uuid \<Rightarrow> 'x \<Rightarrow> (exn + unit) \<times> 'x"
  proxy_activate_scenario :: "uuid \<Rightarrow> activate_request \<Rightarrow> 'x \<Rightarrow> (exn + peer_reply) \<times> 'x"
  proxy_terminate_scenario ::
    "uuid \<Rightarrow> global_path_search_id \<Rightarrow> uuid \<Rightarrow> 'x \<Rightarrow> (exn + bool) \<times> 'x"
  icmpv4_flow_activation ::
    "local_path \<Rightarrow> int option \<Rightarrow> int \<Rightarrow> 32 word option \<Rightarrow> globals \<times> 'x
       \<Rightarrow> (exn + service_id) \<times> globals \<times> 'x"
  ipv4_generic_flow_activation ::
    "local_path \<Rightarrow> int option \<Rightarrow> int \<Rightarrow> 32 word option \<Rightarrow> globals \<times> 'x
       \<Rightarrow> (exn + service_id) \<times> globals \<times> 'x"
  sector_to_sector_mpls_flow_activation ::
    "local_path \<Rightarrow> int option \<Rightarrow> int \<Rightarrow> globals \<times> 'x \<Rightarrow> (exn + service_id) \<times> globals \<times> 'x"

section \<open>Replies of the activation engine\<close>

text \<open>
  The reasons of a failed activation, one constructor per message of the source:
  the path search reached the source controller; the scenario is already implemented; no
  sector is available for exploration; the alternatives are exhausted; the task is already
  being executed; no path to the sector of the target was found; another exception came up
  (with the host, its sector and the exception); the scenario type is invalid.
\<close>

datatype reason =
    ReachedSourceController
  | AlreadyImplemented global_path_search_id
  | NoAvailableSectors
  | AlternativesExhausted global_path_search_id
  | TaskAlreadyExecuting global_path_search_id
  | PathNotFoundToSector uuid
  | ImplementationFailed string uuid exn
  | InvalidScenarioType global_path_search_id string

datatype activation_result =
    ActivationSuccess global_path_search_id real int
  | ActivationFailure reason

section \<open>Choosing the next link or sector\<close>

text \<open>Reading the Q-values of a list of keys, in order; every read may create its cell.\<close>

fun q_values :: "table_key list \<Rightarrow> host_address \<Rightarrow> globals \<Rightarrow> real list \<times> globals" where
  "q_values [] target g = ([], g)"
| "q_values (k # ks) target g =
     (case get_q_value k target g of
        (q, g1) \<Rightarrow> (case q_values ks target g1 of (qs, g2) \<Rightarrow> (q # qs, g2)))"

text \<open>Python's \<open>max\<close> with a key: the first element whose key is the largest.\<close>

fun max_first :: "'a \<times> real \<Rightarrow> ('a \<times> real) list \<Rightarrow> 'a" where
  "max_first best [] = fst best"
| "max_first best (x # xs) = (if snd x > snd best then max_first x xs else max_first best xs)"

text \<open>
  The choice made at the head of each exploration loop: the first candidate whose Q-value is
  0 if there is one, the first candidate of largest Q-value otherwise. \<open>key_of\<close> gives the
  key of a candidate in the Q-table.
\<close>

fun select_candidate ::
  "('a \<Rightarrow> table_key) \<Rightarrow> 'a list \<Rightarrow> host_address \<Rightarrow> globals \<Rightarrow> 'a \<times> globals" where
  "select_candidate key_of (c # cs) target g =
     (case q_values (map key_of (c # cs)) target g of
        (qs, g1) \<Rightarrow>
          (case filter (\<lambda>item. snd item = 0) (zip (c # cs) qs) of
             never_used # _ \<Rightarrow> (fst never_used, g1)
           | [] \<Rightarrow>
               (case q_values (map key_of (c # cs)) target g1 of
                  (qs', g2) \<Rightarrow> (max_first (c, hd qs') (zip cs (tl qs')), g2))))"

text \<open>The key of a link in the tables: its edge \<open>(link[0], link[1])\<close>.\<close>

definition link_edge :: "switch_id \<times> port_no \<times> 'a \<Rightarrow> table_key" where
  "link_edge link = EdgeKey (fst link) (fst (snd link))"

section \<open>Feedback to the learner\<close>

text \<open>
  The refresh of the known shortest path length after a peer has activated its part: both
  branches of the test write the same value.
\<close>

definition refresh_known_shortest_path ::
  "table_key \<Rightarrow> host_address \<Rightarrow> int \<Rightarrow> globals \<Rightarrow> globals" where
  "refresh_known_shortest_path key target peer_path_length g =
     (case get_known_shortest_path key target g of
        (known, g1) \<Rightarrow>
          (if (case known of None \<Rightarrow> False | Some v \<Rightarrow> v \<noteq> 0 \<and> v > peer_path_length + 1)
           then set_known_shortest_path key target (peer_path_length + 1) g1
           else set_known_shortest_path key target (peer_path_length + 1) g1))"

text \<open>
  What the engine does to the tables when the peer reports success: refresh the known
  shortest path length, compute the reward from it and update the Q-value. The result is
  the new Q-value. \<open>kspl_target\<close> and \<open>q_target\<close> are the host keys used for the two
  tables.
\<close>

definition peer_success_update ::
  "table_key \<Rightarrow> host_address \<Rightarrow> host_address \<Rightarrow> peer_reply \<Rightarrow> local_path \<Rightarrow> real \<Rightarrow> globals
     \<Rightarrow> (exn + real) \<times> globals" where
  "peer_success_update key kspl_target q_target service_activation_result a_path forward_q_value g =
     (case reply_path_length service_activation_result of
        None \<Rightarrow> (Inl (KeyError ''path_length''), snd (get_known_shortest_path key kspl_target g))
      | Some peer_path_length \<Rightarrow>
          (case get_known_shortest_path key kspl_target
                  (refresh_known_shortest_path key kspl_target peer_path_length g) of
             (known, g1) \<Rightarrow>
               (case known of
                  None \<Rightarrow> (Inl (AssertionError ''kspl cannot be Zero or None.''), g1)
                | Some v \<Rightarrow>
                    (if v = 0 then (Inl (AssertionError ''kspl cannot be Zero or None.''), g1)
                     else (case get_q_value key q_target g1 of
                             (old_q_value, g2) \<Rightarrow>
                               (let reward = remaining_bandwidth_average a_path / real_of_int v;
                                    new_q_value =
                                      calculate_new_qvalue old_q_value forward_q_value reward
                                in (Inr new_q_value,
                                    set_q_value key q_target new_q_value g2)))))))"

text \<open>
  What the engine does to the tables when the peer reports failure: the Q-value update with
  reward \<open>-1\<close>.
\<close>

definition peer_failure_update ::
  "table_key \<Rightarrow> host_address \<Rightarrow> real \<Rightarrow> globals \<Rightarrow> globals" where
  "peer_failure_update key q_target forward_q_value g =
     (case get_q_value key q_target g of
        (old_q_value, g1) \<Rightarrow>
          set_q_value key q_target (calculate_new_qvalue old_q_value forward_q_value (- 1)) g1)"

text \<open>The reply that stands for an exception of the remote call.\<close>

definition exception_reply :: "exn \<Rightarrow> peer_reply" where
  "exception_reply ex =
     \<lparr>reply_success = False, reply_q_value = None, reply_path_length = None,
      reply_reason = Some (exn_str ex)\<rparr>"

definition forward_q_value_of :: "peer_reply \<Rightarrow> real" where
  "forward_q_value_of service_activation_result =
     (case reply_q_value service_activation_result of None \<Rightarrow> 0 | Some q \<Rightarrow> q)"

text \<open>
  The remote call on a proxy that exists already: the hash of the chosen edge is looked up,
  then the peer is called; any exception becomes a failure reply.
\<close>

definition call_peer ::
  "'x env \<Rightarrow> uuid \<Rightarrow> global_path_search_id \<Rightarrow> int \<Rightarrow> switch_id \<Rightarrow> port_no \<Rightarrow> globals \<Rightarrow> 'x
     \<Rightarrow> peer_reply \<times> 'x" where
  "call_peer env sector_id gpsid local_mpls_label switch_id port_id g x =
     (case get_hash_val switch_id port_id g of
        Inl ex \<Rightarrow> (exception_reply ex, x)
      | Inr h \<Rightarrow>
          (case proxy_activate_scenario env sector_id
                  \<lparr>global_path_search_id = gpsid,
                   sector_requesting_service = this_controller_id env,
                   mpls_label = local_mpls_label,
                   hash_val = h\<rparr> x of
             (Inl ex, x1) \<Rightarrow> (exception_reply ex, x1)
           | (Inr answer, x1) \<Rightarrow> (answer, x1)))"

text \<open>The same with the proxy acquired inside the \<open>try\<close> block.\<close>

definition connect_and_call_peer ::
  "'x env \<Rightarrow> uuid \<Rightarrow> global_path_search_id \<Rightarrow> int \<Rightarrow> switch_id \<Rightarrow> port_no \<Rightarrow> globals \<Rightarrow> 'x
     \<Rightarrow> peer_reply \<times> 'x" where
  "connect_and_call_peer env sector_id gpsid local_mpls_label switch_id port_id g x =
     (case get_controller_proxy env sector_id x of
        (Inl ex, x1) \<Rightarrow> (exception_reply ex, x1)
      | (Inr u, x1) \<Rightarrow> call_peer env sector_id gpsid local_mpls_label switch_id port_id g x1)"

section \<open>The exploration loop\<close>

lemma max_first_mem: "max_first best xs \<in> insert (fst best) (fst ` set xs)"
  by (induction xs arbitrary: best) auto

lemma length_q_values: "length (fst (q_values ks target g)) = length ks"
proof (induction ks arbitrary: g)
  case Nil
  show ?case by simp
next
  case (Cons k ks)
  obtain q g1 where a: "get_q_value k target g = (q, g1)"
    by (cases "get_q_value k target g")
  obtain qs g2 where b: "q_values ks target g1 = (qs, g2)"
    by (cases "q_values ks target g1")
  have "length qs = length ks"
    using Cons.IH[of g1] b by simp
  then show ?case
    by (simp add: a b)
qed

lemma select_candidate_mem:
  assumes "candidates \<noteq> []"
  shows "fst (select_candidate key_of candidates target g) \<in> set candidates"
proof -
  obtain c cs where cc: "candidates = c # cs"
    using assms by (cases candidates) auto
  obtain qs g1 where q1: "q_values (map key_of (c # cs)) target g = (qs, g1)"
    by (cases "q_values (map key_of (c # cs)) target g")
  obtain qs' g2 where q2: "q_values (map key_of (c # cs)) target g1 = (qs', g2)"
    by (cases "q_values (map key_of (c # cs)) target g1")
  show ?thesis
  proof (cases "filter (\<lambda>item. snd item = 0) (zip (c # cs) qs)")
    case Nil
    have "length qs' = Suc (length cs)"
      using length_q_values[of "map key_of (c # cs)" target g1] q2 by simp
    then have "fst ` set (zip cs (tl qs')) \<subseteq> set cs"
      by (auto dest: set_zip_leftD)
    then have "max_first (c, hd qs') (zip cs (tl qs')) \<in> set (c # cs)"
      using max_first_mem[of "(c, hd qs')" "zip cs (tl qs')"] by auto
    then show ?thesis
      unfolding cc using q1 q2 Nil by (simp del: q_values.simps)
  next
    case (Cons never_used rest)
    then have "never_used \<in> set (zip (c # cs) qs)"
      by (metis filter_is_subset list.set_intros(1) subsetD)
    then have "fst never_used \<in> set (c # cs)"
      using set_zip_leftD[of "fst never_used" "snd never_used" "c # cs" qs] by simp
    then show ?thesis
      unfolding cc using q1 Cons by (simp del: q_values.simps)
  qed
qed

text \<open>
  The three exploration loops of the engine have one shape: while candidates remain, choose
  one by its Q-value, take it out of the list and make an attempt with it. The attempt ends
  the loop with a result or an exception, or asks for the next candidate (\<open>Inr None\<close>).
  When no candidate is left the loop ends without a result.
\<close>

function explore ::
  "('a \<Rightarrow> table_key) \<Rightarrow> host_address
     \<Rightarrow> ('a \<Rightarrow> 'a list \<Rightarrow> globals \<times> 'x \<Rightarrow> (exn + 'r option) \<times> globals \<times> 'x)
     \<Rightarrow> 'a list \<Rightarrow> globals \<times> 'x \<Rightarrow> (exn + 'r option) \<times> globals \<times> 'x" where
  "explore key_of target attempt candidates (g, x) =
     (if candidates = [] then (Inr None, g, x)
      else (case select_candidate key_of candidates target g of
              (selected, g1) \<Rightarrow>
                (case attempt selected (remove1 selected candidates) (g1, x) of
                   (Inr None, s) \<Rightarrow> explore key_of target attempt (remove1 selected candidates) s
                 | (outcome, s) \<Rightarrow> (outcome, s))))"
  by pat_completeness auto
termination
proof (relation "measure (\<lambda>(key_of, target, attempt, candidates, s). length candidates)")
  show "wf (measure (\<lambda>(key_of, target, attempt, candidates, s). length candidates))"
    by simp
next
  fix key_of :: "'a \<Rightarrow> table_key" and target :: host_address
    and attempt :: "'a \<Rightarrow> 'a list \<Rightarrow> globals \<times> 'x \<Rightarrow> (exn + 'r option) \<times> globals \<times> 'x"
    and candidates :: "'a list" and g :: globals and x :: 'x and xa selected g1 xb s
  assume ne: "candidates \<noteq> []"
    and sel: "(selected, g1) = select_candidate key_of candidates target g"
  have "selected \<in> set candidates"
    using select_candidate_mem[OF ne, of key_of target g] sel by (metis fst_conv)
  then have "length (remove1 selected candidates) < length candidates"
    by (simp add: length_remove1) (cases candidates; simp)
  then show "((key_of, target, attempt, remove1 selected candidates, s),
              (key_of, target, attempt, candidates, g, x))
             \<in> measure (\<lambda>(key_of, target, attempt, candidates, s). length candidates)"
    by simp
qed

declare explore.simps [simp del]

section \<open>Activation of an ICMPv4 scenario\<close>

text \<open>
  Modelled from the spec: the service installers \<open>icmpv4_flow_activation\<close>,
  \<open>ipv4_generic_flow_activation\<close> and \<open>sector_to_sector_mpls_flow_activation\<close> are not
  in the sources at hand. Section 4.8 of the specification says that an installer programs
  flow entries through the OpenFlow adapter, allocates a cookie for each entry and returns a
  service handle, and section 3 that the handles are kept in the installers' tables, which are
  \<open>mapped_services\<close>. Of the variables of this module, a call of an installer therefore
  changes the mapped services and the cookie allocator, and no other.
\<close>

definition run_installer ::
  "(globals \<times> 'x \<Rightarrow> (exn + service_id) \<times> globals \<times> 'x) \<Rightarrow> globals \<times> 'x
     \<Rightarrow> (exn + service_id) \<times> globals \<times> 'x" where
  "run_installer install s =
     (case install s of
        (outcome, g', x') \<Rightarrow>
          (outcome,
           (fst s)\<lparr>mapped_services := mapped_services g',
                    recycled_cookie_ids := recycled_cookie_ids g',
                    cookie_id_counter := cookie_id_counter g'\<rparr>,
           x'))"

text \<open>
  The sequence that follows a successful answer of the peer, common to the forwarding
  branches: update the tables, install the local service, register the scenario and build the
  reply. \<open>install\<close> is the installer the branch calls; \<open>adjacent_sectors\<close> are the
  sectors recorded with the scenario.
\<close>

definition complete_activation ::
  "global_path_search_id \<Rightarrow> table_key \<Rightarrow> host_address \<Rightarrow> host_address \<Rightarrow> peer_reply \<Rightarrow> local_path
     \<Rightarrow> (globals \<times> 'x \<Rightarrow> (exn + service_id) \<times> globals \<times> 'x) \<Rightarrow> uuid list \<Rightarrow> globals \<times> 'x
     \<Rightarrow> (exn + activation_result) \<times> globals \<times> 'x" where
  "complete_activation gpsid key kspl_target q_target service_activation_result a_path install
       adjacent_sectors s =
     (case s of
        (g, x) \<Rightarrow>
          (case peer_success_update key kspl_target q_target service_activation_result a_path
                  (forward_q_value_of service_activation_result) g of
             (Inl ex, g1) \<Rightarrow> (Inl ex, g1, x)
           | (Inr new_q_value, g1) \<Rightarrow>
               (case run_installer install (g1, x) of
                  (Inl ex, s2) \<Rightarrow> (Inl ex, s2)
                | (Inr local_service_scenario, g2, x2) \<Rightarrow>
                    (case set_active_scenario gpsid ([local_service_scenario], adjacent_sectors) g2 of
                       (Inl ex, g3) \<Rightarrow> (Inl ex, g3, x2)
                     | (Inr u, g3) \<Rightarrow>
                         (case reply_path_length service_activation_result of
                            None \<Rightarrow> (Inl (KeyError ''path_length''), g3, x2)
                          | Some peer_path_length \<Rightarrow>
                              (Inr (ActivationSuccess gpsid new_q_value
                                      (int (path_len a_path) + peer_path_length - 1)),
                               g3, x2))))))"

text \<open>
  The sequence that follows a failed answer of the peer: the Q-value update with reward
  \<open>-1\<close>, then the log line that reads the reason of the failure.
\<close>

definition record_peer_failure ::
  "table_key \<Rightarrow> host_address \<Rightarrow> peer_reply \<Rightarrow> globals \<Rightarrow> (exn + unit) \<times> globals" where
  "record_peer_failure key q_target service_activation_result g =
     (let g1 = peer_failure_update key q_target (forward_q_value_of service_activation_result) g
      in (case reply_reason service_activation_result of
            None \<Rightarrow> (Inl (KeyError ''reason''), g1)
          | Some text \<Rightarrow> (Inr (), g1)))"

text \<open>The target host is in this sector.\<close>

definition icmpv4_local_target ::
  "'x env \<Rightarrow> activate_request \<Rightarrow> host_info \<Rightarrow> globals \<times> 'x
     \<Rightarrow> (exn + activation_result) \<times> globals \<times> 'x" where
  "icmpv4_local_target env req target_host_info s =
     (case s of
        (g, x) \<Rightarrow>
          (case construct_bidirectional_path env
                  (SectorEntity (sector_requesting_service req))
                  (HostEntity (host_name target_host_info)) 100 (hash_val req) None x of
             (Inl ex, x1) \<Rightarrow> (Inl ex, g, x1)
           | (Inr bidirectional_path, x1) \<Rightarrow>
               (if path_len bidirectional_path = 0
                then (Inl (AssertionError ''bidirectional_path path length cannot be zero.''), g, x1)
                else (case (if path_len bidirectional_path \<ge> 3
                            then (case alloc_mpls_label_id g of
                                    (Inl ex, g1) \<Rightarrow> (Inl ex, g1)
                                  | (Inr label, g1) \<Rightarrow> (Inr (Some label), g1))
                            else (Inr None, g)) of
                        (Inl ex, g1) \<Rightarrow> (Inl ex, g1, x1)
                      | (Inr local_mpls_label, g1) \<Rightarrow>
                          (case run_installer
                                  (icmpv4_flow_activation env bidirectional_path local_mpls_label
                                     (mpls_label req)
                                     (Some (fst (snd (global_path_search_id req))))) (g1, x1) of
                             (Inl ex, s2) \<Rightarrow> (Inl ex, s2)
                           | (Inr local_service_scenario, g2, x2) \<Rightarrow>
                               (case set_active_scenario (global_path_search_id req)
                                       ([local_service_scenario], [sector_requesting_service req])
                                       g2 of
                                  (Inl ex, g3) \<Rightarrow> (Inl ex, g3, x2)
                                | (Inr u, g3) \<Rightarrow>
                                    (Inr (ActivationSuccess (global_path_search_id req) 1
                                            (int (path_len bidirectional_path) - 1)),
                                     g3, x2)))))))"

text \<open>
  The target sector is adjacent. The loop only looks for a link to which a local path
  exists; a link is dropped when the topology has no path to it.
\<close>

definition icmpv4_adjacent_path_attempt ::
  "'x env \<Rightarrow> activate_request \<Rightarrow> uuid \<Rightarrow> switch_id \<times> port_no \<times> hash_val
     \<Rightarrow> (switch_id \<times> port_no \<times> hash_val) list \<Rightarrow> globals \<times> 'x
     \<Rightarrow> (exn + ((switch_id \<times> port_no \<times> hash_val) \<times> local_path) option) \<times> globals \<times> 'x" where
  "icmpv4_adjacent_path_attempt env req target_sector selected_link possible_links s =
     (case s of
        (g, x) \<Rightarrow>
          (case construct_bidirectional_path env
                  (SectorEntity (sector_requesting_service req)) (SectorEntity target_sector)
                  100 (hash_val req) (Some (snd (snd selected_link))) x of
             (Inr bidirectional_path, x1) \<Rightarrow> (Inr (Some (selected_link, bidirectional_path)), g, x1)
           | (Inl PathNotFound, x1) \<Rightarrow>
               (if length possible_links = 0 then (Inl PathNotFound, g, x1)
                else (Inr None, g, x1))
           | (Inl ex, x1) \<Rightarrow> (Inl ex, g, x1)))"

text \<open>
  After the loop the peer is called once, through the link that was found. When the peer
  fails the activation ends: the penalty goes to the Q-value of the target sector and the
  reply is a failure.
\<close>

definition icmpv4_adjacent_target ::
  "'x env \<Rightarrow> activate_request \<Rightarrow> host_info \<Rightarrow> globals \<times> 'x
     \<Rightarrow> (exn + activation_result) \<times> globals \<times> 'x" where
  "icmpv4_adjacent_target env req target_host_info s =
     (let gpsid = global_path_search_id req;
          target_sector = host_controller_id target_host_info;
          target_ipv4 = IPv4Address (fst (snd (snd gpsid)))
      in (case explore link_edge target_ipv4
                 (icmpv4_adjacent_path_attempt env req target_sector)
                 (query_edges_to_sector env target_sector (snd s)) s of
            (Inl ex, s1) \<Rightarrow> (Inl ex, s1)
          | (Inr None, s1) \<Rightarrow>
              (Inl (AssertionError ''bidirectional_path path length cannot be zero.''), s1)
          | (Inr (Some (selected_link, bidirectional_path)), g1, x1) \<Rightarrow>
              (if path_len bidirectional_path = 0
               then (Inl (AssertionError ''bidirectional_path path length cannot be zero.''),
                     g1, x1)
               else (case alloc_mpls_label_id g1 of
                       (Inl ex, g2) \<Rightarrow> (Inl ex, g2, x1)
                     | (Inr local_mpls_label, g2) \<Rightarrow>
                         (case get_controller_proxy env target_sector x1 of
                            (Inl ex, x2) \<Rightarrow> (Inl ex, g2, x2)
                          | (Inr u, x2) \<Rightarrow>
                              (case call_peer env target_sector gpsid local_mpls_label
                                      (fst selected_link) (fst (snd selected_link)) g2 x2 of
                                 (service_activation_result, x3) \<Rightarrow>
                                   (if reply_success service_activation_result
                                    then complete_activation gpsid
                                           (link_edge selected_link)
                                           target_ipv4 target_ipv4 service_activation_result
                                           bidirectional_path
                                           (sector_to_sector_mpls_flow_activation env
                                              bidirectional_path (Some local_mpls_label)
                                              (mpls_label req))
                                           [sector_requesting_service req, target_sector]
                                           (g2, x3)
                                    else (case record_peer_failure (SectorKey target_sector)
                                                 target_ipv4 service_activation_result g2 of
                                            (Inl ex, g3) \<Rightarrow> (Inl ex, g3, x3)
                                          | (Inr u, g3) \<Rightarrow>
                                              (Inr (ActivationFailure NoAvailableSectors),
                                               g3, x3)))))))))"

text \<open>
  The target sector is not adjacent: one attempt of the loop over all links to the other
  adjacent sectors. The link was taken out of \<open>possible_links\<close> before the attempt. A peer
  failure asks for the next link.
\<close>

definition icmpv4_forward_attempt ::
  "'x env \<Rightarrow> activate_request \<Rightarrow> switch_id \<times> port_no \<times> hash_val \<times> uuid
     \<Rightarrow> (switch_id \<times> port_no \<times> hash_val \<times> uuid) list \<Rightarrow> globals \<times> 'x
     \<Rightarrow> (exn + activation_result option) \<times> globals \<times> 'x" where
  "icmpv4_forward_attempt env req selected_link possible_links s =
     (let gpsid = global_path_search_id req;
          target_ipv4 = IPv4Address (fst (snd (snd gpsid)));
          chosen_edge = link_edge selected_link;
          selected_sector_id = snd (snd (snd selected_link))
      in (case s of
            (g, x) \<Rightarrow>
              (case construct_bidirectional_path env
                      (SectorEntity (sector_requesting_service req))
                      (SectorEntity selected_sector_id) 100 (hash_val req)
                      (Some (fst (snd (snd selected_link)))) x of
                 (Inl PathNotFound, x1) \<Rightarrow>
                   (if length possible_links = 0 then (Inl PathNotFound, g, x1)
                    else (Inr None, g, x1))
               | (Inl ex, x1) \<Rightarrow> (Inl ex, g, x1)
               | (Inr bidirectional_path, x1) \<Rightarrow>
                   (if path_len bidirectional_path = 0
                    then (Inl (AssertionError
                                 ''bidirectional_path path length cannot be zero.''), g, x1)
                    else (case alloc_mpls_label_id g of
                            (Inl ex, g1) \<Rightarrow> (Inl ex, g1, x1)
                          | (Inr local_mpls_label, g1) \<Rightarrow>
                              (case connect_and_call_peer env selected_sector_id gpsid
                                      local_mpls_label (fst selected_link)
                                      (fst (snd selected_link)) g1 x1 of
                                 (service_activation_result, x2) \<Rightarrow>
                                   (if reply_success service_activation_result
                                    then (case complete_activation gpsid chosen_edge target_ipv4
                                                 target_ipv4 service_activation_result
                                                 bidirectional_path
                                                 (\<lambda>s'. if query_entity_is_sector env
                                                             (entity_a bidirectional_path) (snd s')
                                                           \<and> query_entity_is_sector env
                                                               (entity_b bidirectional_path) (snd s')
                                                        then sector_to_sector_mpls_flow_activation
                                                               env bidirectional_path
                                                               (Some local_mpls_label)
                                                               (mpls_label req) s'
                                                        else icmpv4_flow_activation env
                                                               bidirectional_path
                                                               (Some local_mpls_label)
                                                               (mpls_label req) None s')
                                                 [sector_requesting_service req,
                                                  selected_sector_id]
                                                 (g1, x2) of
                                            (Inl ex, s3) \<Rightarrow> (Inl ex, s3)
                                          | (Inr answer, s3) \<Rightarrow> (Inr (Some answer), s3))
                                    else (case record_peer_failure chosen_edge target_ipv4
                                                 service_activation_result g1 of
                                            (Inl ex, g2) \<Rightarrow> (Inl ex, g2, x2)
                                          | (Inr u, g2) \<Rightarrow> (Inr None, g2, x2)))))))))"

text \<open>
  The part of the ICMPv4 branch that runs when the target is in another sector: leave out
  the requesting sector, then go to the target sector if it is adjacent, and explore the
  links to all remaining sectors otherwise.
\<close>

definition icmpv4_forward ::
  "'x env \<Rightarrow> activate_request \<Rightarrow> host_info \<Rightarrow> globals \<times> 'x
     \<Rightarrow> (exn + activation_result) \<times> globals \<times> 'x" where
  "icmpv4_forward env req target_host_info s =
     (let gpsid = global_path_search_id req;
          target_ipv4 = IPv4Address (fst (snd (snd gpsid)));
          adjacent_sectors_ids = query_sectors_ids env (snd s)
      in (if sector_requesting_service req \<notin> set adjacent_sectors_ids
          then (Inl (KeyError ''sector_requesting_service_id''), s)
          else (let remaining_sectors = remove1 (sector_requesting_service req) adjacent_sectors_ids
                in (if length remaining_sectors = 0
                    then (Inr (ActivationFailure NoAvailableSectors), s)
                    else if host_controller_id target_host_info \<in> set remaining_sectors
                    then icmpv4_adjacent_target env req target_host_info s
                    else (case explore link_edge target_ipv4
                                 (icmpv4_forward_attempt env req)
                                 (concat (map (\<lambda>adjacent_sector.
                                            map (\<lambda>edge. (fst edge, fst (snd edge), snd (snd edge),
                                                           adjacent_sector))
                                              (query_edges_to_sector env adjacent_sector (snd s)))
                                          remaining_sectors)) s of
                            (Inl ex, s1) \<Rightarrow> (Inl ex, s1)
                          | (Inr (Some answer), s1) \<Rightarrow> (Inr answer, s1)
                          | (Inr None, s1) \<Rightarrow>
                              (Inr (ActivationFailure (AlternativesExhausted gpsid)), s1))))))"

text \<open>The three exception handlers that close each branch.\<close>

definition failure_reason :: "global_path_search_id \<Rightarrow> host_info \<Rightarrow> exn \<Rightarrow> reason" where
  "failure_reason gpsid target_host_info ex =
     (case ex of
        ImplementationTaskExists \<Rightarrow> TaskAlreadyExecuting gpsid
      | PathNotFound \<Rightarrow> PathNotFoundToSector (host_controller_id target_host_info)
      | _ \<Rightarrow> ImplementationFailed (host_name target_host_info)
               (host_controller_id target_host_info) ex)"

text \<open>
  A branch of the activation: the task token is registered, the body runs, every exception
  becomes a failure reply, and the token is deleted when the activation returns.
\<close>

definition with_task_token ::
  "global_path_search_id \<Rightarrow> string \<Rightarrow> string \<Rightarrow> host_info
     \<Rightarrow> (globals \<times> 'x \<Rightarrow> (exn + activation_result) \<times> globals \<times> 'x) \<Rightarrow> globals \<times> 'x
     \<Rightarrow> activation_result \<times> globals \<times> 'x" where
  "with_task_token gpsid first_layer second_layer target_host_info body s =
     (case register_implementation_task gpsid first_layer second_layer (fst s) of
        Inl ex \<Rightarrow> (ActivationFailure (failure_reason gpsid target_host_info ex), s)
      | Inr g0 \<Rightarrow>
          (case body (g0, snd s) of
             (outcome, g1, x1) \<Rightarrow>
               ((case outcome of
                   Inr answer \<Rightarrow> answer
                 | Inl ex \<Rightarrow> ActivationFailure (failure_reason gpsid target_host_info ex)),
                delete_implementation_task gpsid first_layer second_layer g1, x1)))"

section \<open>Activation of a generic IPv4 scenario\<close>

text \<open>\<open>xs[-2]\<close>.\<close>

definition second_last :: "'a list \<Rightarrow> exn + 'a" where
  "second_last xs =
     (if length xs \<ge> 2 then Inr (xs ! (length xs - 2))
      else Inl (IndexError ''list index out of range''))"

definition ipv4_local_target ::
  "'x env \<Rightarrow> activate_request \<Rightarrow> host_info \<Rightarrow> globals \<times> 'x
     \<Rightarrow> (exn + activation_result) \<times> globals \<times> 'x" where
  "ipv4_local_target env req target_host_info s =
     (case s of
        (g, x) \<Rightarrow>
          (case construct_unidirectional_path env
                  (SectorEntity (sector_requesting_service req))
                  (HostEntity (host_name target_host_info)) (hash_val req) None x of
             (Inl ex, x1) \<Rightarrow> (Inl ex, g, x1)
           | (Inr unidirectional_path, x1) \<Rightarrow>
               (if path_len unidirectional_path = 0
                then (Inl (AssertionError ''unidirectional_path path length cannot be zero.''),
                      g, x1)
                else (case (if path_len unidirectional_path \<ge> 3
                            then (case alloc_mpls_label_id g of
                                    (Inl ex, g1) \<Rightarrow> (Inl ex, g1)
                                  | (Inr label, g1) \<Rightarrow> (Inr (Some label), g1))
                            else (Inr None, g)) of
                        (Inl ex, g1) \<Rightarrow> (Inl ex, g1, x1)
                      | (Inr local_mpls_label, g1) \<Rightarrow>
                          (case run_installer
                                  (ipv4_generic_flow_activation env unidirectional_path
                                     local_mpls_label (mpls_label req)
                                     (Some (fst (snd (global_path_search_id req))))) (g1, x1) of
                             (Inl ex, s2) \<Rightarrow> (Inl ex, s2)
                           | (Inr local_service_scenario, g2, x2) \<Rightarrow>
                               (case set_active_scenario (global_path_search_id req)
                                       ([local_service_scenario], [sector_requesting_service req])
                                       g2 of
                                  (Inl ex, g3) \<Rightarrow> (Inl ex, g3, x2)
                                | (Inr u, g3) \<Rightarrow>
                                    (Inr (ActivationSuccess (global_path_search_id req) 1
                                            (int (path_len unidirectional_path) - 1)),
                                     g3, x2)))))))"

text \<open>
  The target sector is adjacent: one path, one call of the peer. The tables are keyed by the
  target sector; the known shortest path length is stored under the address object and the
  Q-value under the address string.
\<close>

definition ipv4_adjacent_target ::
  "'x env \<Rightarrow> activate_request \<Rightarrow> host_info \<Rightarrow> globals \<times> 'x
     \<Rightarrow> (exn + activation_result) \<times> globals \<times> 'x" where
  "ipv4_adjacent_target env req target_host_info s =
     (let gpsid = global_path_search_id req;
          target_sector = host_controller_id target_host_info;
          target_ipv4 = IPv4Address (fst (snd (snd gpsid)));
          target_ipv4_str = IPv4Str (fst (snd (snd gpsid)))
      in (case s of
            (g, x) \<Rightarrow>
              (case construct_unidirectional_path env
                      (SectorEntity (sector_requesting_service req)) (SectorEntity target_sector)
                      (hash_val req) None x of
                 (Inl ex, x1) \<Rightarrow> (Inl ex, g, x1)
               | (Inr unidirectional_path, x1) \<Rightarrow>
                   (if path_len unidirectional_path = 0
                    then (Inl (AssertionError
                                 ''unidirectional_path path length cannot be zero.''), g, x1)
                    else (case alloc_mpls_label_id g of
                            (Inl ex, g1) \<Rightarrow> (Inl ex, g1, x1)
                          | (Inr local_mpls_label, g1) \<Rightarrow>
                              (case second_last (path unidirectional_path) of
                                 Inl ex \<Rightarrow> (Inl ex, g1, x1)
                               | Inr hop \<Rightarrow>
                                   (case get_controller_proxy env target_sector x1 of
                                      (Inl ex, x2) \<Rightarrow> (Inl ex, g1, x2)
                                    | (Inr u, x2) \<Rightarrow>
                                        (case call_peer env target_sector gpsid local_mpls_label
                                                (fst hop) (snd (snd hop)) g1 x2 of
                                           (service_activation_result, x3) \<Rightarrow>
                                             (if reply_success service_activation_result
                                              then complete_activation gpsid
                                                     (SectorKey target_sector) target_ipv4
                                                     target_ipv4_str service_activation_result
                                                     unidirectional_path
                                                     (sector_to_sector_mpls_flow_activation env
                                                        unidirectional_path
                                                        (Some local_mpls_label) (mpls_label req))
                                                     [sector_requesting_service req, target_sector]
                                                     (g1, x3)
                                              else (case record_peer_failure
                                                           (SectorKey target_sector)
                                                           target_ipv4_str
                                                           service_activation_result g1 of
                                                      (Inl ex, g2) \<Rightarrow> (Inl ex, g2, x3)
                                                    | (Inr u, g2) \<Rightarrow>
                                                        (Inr (ActivationFailure
                                                                NoAvailableSectors),
                                                         g2, x3)))))))))))"

text \<open>
  The target sector is not adjacent: one attempt of the loop over the remaining adjacent
  sectors. An exception of the path construction ends the activation.
\<close>

definition ipv4_forward_attempt ::
  "'x env \<Rightarrow> activate_request \<Rightarrow> uuid \<Rightarrow> uuid list \<Rightarrow> globals \<times> 'x
     \<Rightarrow> (exn + activation_result option) \<times> globals \<times> 'x" where
  "ipv4_forward_attempt env req selected_sector_id adjacent_sectors_ids s =
     (let gpsid = global_path_search_id req;
          target_ipv4 = IPv4Address (fst (snd (snd gpsid)));
          target_ipv4_str = IPv4Str (fst (snd (snd gpsid)))
      in (case s of
            (g, x) \<Rightarrow>
              (case construct_unidirectional_path env
                      (SectorEntity (sector_requesting_service req))
                      (SectorEntity selected_sector_id) (hash_val req) None x of
                 (Inl ex, x1) \<Rightarrow> (Inl ex, g, x1)
               | (Inr unidirectional_path, x1) \<Rightarrow>
                   (if path_len unidirectional_path = 0
                    then (Inl (AssertionError
                                 ''unidirectional_path path length cannot be zero.''), g, x1)
                    else (case alloc_mpls_label_id g of
                            (Inl ex, g1) \<Rightarrow> (Inl ex, g1, x1)
                          | (Inr local_mpls_label, g1) \<Rightarrow>
                              (case second_last (path unidirectional_path) of
                                 Inl ex \<Rightarrow> (Inl ex, g1, x1)
                               | Inr hop \<Rightarrow>
                                   (case connect_and_call_peer env selected_sector_id gpsid
                                           local_mpls_label (fst hop) (snd (snd hop)) g1 x1 of
                                      (service_activation_result, x2) \<Rightarrow>
                                        (if reply_success service_activation_result
                                         then (case complete_activation gpsid
                                                      (SectorKey selected_sector_id) target_ipv4
                                                      target_ipv4_str service_activation_result
                                                      unidirectional_path
                                                      (\<lambda>s'. if query_entity_is_sector env
                                                                  (entity_a unidirectional_path)
                                                                  (snd s')
                                                                \<and> query_entity_is_sector env
                                                                    (entity_b unidirectional_path)
                                                                    (snd s')
                                                             then
                                                               sector_to_sector_mpls_flow_activation
                                                                 env unidirectional_path
                                                                 (Some local_mpls_label)
                                                                 (mpls_label req) s'
                                                             else ipv4_generic_flow_activation env
                                                                    unidirectional_path
                                                                    (Some local_mpls_label)
                                                                    (mpls_label req) None s')
                                                      [sector_requesting_service req,
                                                       selected_sector_id]
                                                      (g1, x2) of
                                                 (Inl ex, s3) \<Rightarrow> (Inl ex, s3)
                                               | (Inr answer, s3) \<Rightarrow> (Inr (Some answer), s3))
                                         else (case record_peer_failure
                                                      (SectorKey selected_sector_id)
                                                      target_ipv4_str service_activation_result
                                                      g1 of
                                                 (Inl ex, g2) \<Rightarrow> (Inl ex, g2, x2)
                                               | (Inr u, g2) \<Rightarrow> (Inr None, g2, x2))))))))))"

definition ipv4_forward ::
  "'x env \<Rightarrow> activate_request \<Rightarrow> host_info \<Rightarrow> globals \<times> 'x
     \<Rightarrow> (exn + activation_result) \<times> globals \<times> 'x" where
  "ipv4_forward env req target_host_info s =
     (let gpsid = global_path_search_id req;
          target_ipv4 = IPv4Address (fst (snd (snd gpsid)));
          adjacent_sectors_ids = query_sectors_ids env (snd s)
      in (if sector_requesting_service req \<notin> set adjacent_sectors_ids
          then (Inl (KeyError ''sector_requesting_service_id''), s)
          else (let remaining_sectors = remove1 (sector_requesting_service req) adjacent_sectors_ids
                in (if length remaining_sectors = 0
                    then (Inr (ActivationFailure NoAvailableSectors), s)
                    else if host_controller_id target_host_info \<in> set remaining_sectors
                    then ipv4_adjacent_target env req target_host_info s
                    else (case explore SectorKey target_ipv4 (ipv4_forward_attempt env req)
                                 remaining_sectors s of
                            (Inl ex, s1) \<Rightarrow> (Inl ex, s1)
                          | (Inr (Some answer), s1) \<Rightarrow> (Inr answer, s1)
                          | (Inr None, s1) \<Rightarrow>
                              (Inr (ActivationFailure (AlternativesExhausted gpsid)), s1))))))"

section \<open>The request handlers\<close>

text \<open>
  \<open>__activate_scenario\<close>. The request is a dictionary with its four keys present. The two
  assertions on the label and the hash come first, then the address query at the central
  registry, then the two preconditions, then the branch of the scenario type.
\<close>

definition activate_scenario ::
  "'x env \<Rightarrow> activate_request \<Rightarrow> globals \<times> 'x \<Rightarrow> (exn + activation_result) \<times> globals \<times> 'x" where
  "activate_scenario env scenario_request s =
     (let gpsid = global_path_search_id scenario_request;
          source_controller_id = fst gpsid;
          target_ipv4 = fst (snd (snd gpsid));
          scenario_type = snd (snd (snd gpsid))
      in (if mpls_label scenario_request < 0
          then (Inl (AssertionError ''scenario_mpls_label expected to be non negative  int''), s)
          else if hash_val scenario_request < 0
          then (Inl (AssertionError ''scenario_hash_val expected to be non negative int''), s)
          else (case query_address_info env target_ipv4 (snd s) of
                  (Inl ex, x1) \<Rightarrow> (Inl ex, fst s, x1)
                | (Inr target_host_info, x1) \<Rightarrow>
                    (if source_controller_id = this_controller_id env
                     then (Inr (ActivationFailure ReachedSourceController), fst s, x1)
                     else if is_scenario_active gpsid (fst s)
                     then (Inr (ActivationFailure (AlreadyImplemented gpsid)), fst s, x1)
                     else if scenario_type = ''ICMPv4''
                     then (case with_task_token gpsid ''IPv4'' ''ICMP'' target_host_info
                                  (if host_controller_id target_host_info = this_controller_id env
                                   then icmpv4_local_target env scenario_request target_host_info
                                   else icmpv4_forward env scenario_request target_host_info)
                                  (fst s, x1) of
                             (answer, s1) \<Rightarrow> (Inr answer, s1))
                     else if scenario_type = ''IPv4''
                     then (case with_task_token gpsid ''IPv4'' ''*'' target_host_info
                                  (if host_controller_id target_host_info = this_controller_id env
                                   then ipv4_local_target env scenario_request target_host_info
                                   else ipv4_forward env scenario_request target_host_info)
                                  (fst s, x1) of
                             (answer, s1) \<Rightarrow> (Inr answer, s1))
                     else (Inr (ActivationFailure (InvalidScenarioType gpsid scenario_type)),
                           fst s, x1)))))"

text \<open>
  \<open>__terminate_scenario\<close>. The request is a dictionary with its two keys present.
\<close>

record terminate_request =
  t_global_path_search_id :: global_path_search_id
  t_requesting_sector_id :: uuid

datatype termination_result =
    TerminationSuccess global_path_search_id
  | RegistrationDoesNotExist global_path_search_id

text \<open>
  The entries of \<open>mapped_services\<close> that are left after the loops over its three levels have
  deleted every entry whose service object is one of the local scenarios.
\<close>

definition remove_local_scenarios ::
  "service_id list \<Rightarrow> ((string \<times> string) \<times> (entities_ids_pair \<times> service_id) list) list
     \<Rightarrow> ((string \<times> string) \<times> (entities_ids_pair \<times> service_id) list) list" where
  "remove_local_scenarios local_scenarios_ids_list services =
     map (\<lambda>service_type.
            (fst service_type,
             filter (\<lambda>entry. snd entry \<notin> set local_scenarios_ids_list) (snd service_type)))
       services"

text \<open>
  The loop over the adjacent sectors: a proxy is acquired and the peer is called; the answer
  is logged, whatever it says. An exception leaves the loop. The first component of the state
  is the list of sectors whose \<open>terminate_scenario\<close> has been called so far; it is kept
  for the statement of properties and has no counterpart in the source.
\<close>

fun terminate_adjacent_sectors ::
  "'x env \<Rightarrow> global_path_search_id \<Rightarrow> uuid list \<Rightarrow> uuid list \<times> 'x \<Rightarrow> (exn + unit) \<times> uuid list \<times> 'x" where
  "terminate_adjacent_sectors env gpsid [] (called, x) = (Inr (), called, x)"
| "terminate_adjacent_sectors env gpsid (sector_id # sectors) (called, x) =
     (case get_controller_proxy env sector_id x of
        (Inl ex, x1) \<Rightarrow> (Inl ex, called, x1)
      | (Inr u, x1) \<Rightarrow>
          (case proxy_terminate_scenario env sector_id gpsid (this_controller_id env) x1 of
             (Inl ex, x2) \<Rightarrow> (Inl ex, called @ [sector_id], x2)
           | (Inr res, x2) \<Rightarrow>
               terminate_adjacent_sectors env gpsid sectors (called @ [sector_id], x2)))"

text \<open>
  The iteration over \<open>set(adjacent_sectors_ids) - {requesting_sector_id}\<close>: the elements
  of the set, each once, by increasing rank.
\<close>

definition sectors_to_contact :: "'x env \<Rightarrow> uuid list \<Rightarrow> uuid \<Rightarrow> uuid list" where
  "sectors_to_contact env adjacent_sectors_ids requesting_sector_id =
     sort_key (hash_order env)
       (remdups (filter (\<lambda>sector_id. sector_id \<noteq> requesting_sector_id) adjacent_sectors_ids))"

text \<open>
  The handler returns a reply, or raises the exception that carries the scenario id and the
  exception caught. The sectors to contact are the elements of
  \<open>set(adjacent_sectors_ids) - {requesting_sector_id}\<close>, each once, in the order in which
  Python iterates over that set: the order of the ranks \<open>hash_order\<close>, which is any order
  at all. The result holds the list of sectors called as well. What the destructors of the
  service objects do when the handler drops them belongs to the installers and is not
  modelled.
\<close>

definition terminate_scenario ::
  "'x env \<Rightarrow> terminate_request \<Rightarrow> globals \<times> 'x
     \<Rightarrow> ((global_path_search_id \<times> exn) + termination_result) \<times> uuid list \<times> globals \<times> 'x" where
  "terminate_scenario env scenario_request s =
     (let gpsid = t_global_path_search_id scenario_request
      in (if \<not> is_scenario_active gpsid (fst s)
          then (Inr (RegistrationDoesNotExist gpsid), [], s)
          else (case get_active_scenario gpsid True (fst s) of
                  (Inl ex, g1) \<Rightarrow> (Inl (gpsid, ex), [], g1, snd s)
                | (Inr (local_scenarios_ids_list, adjacent_sectors_ids), g1) \<Rightarrow>
                    (let g2 = g1\<lparr>mapped_services :=
                                   remove_local_scenarios local_scenarios_ids_list
                                     (mapped_services g1)\<rparr>
                     in (case terminate_adjacent_sectors env gpsid
                                  (sectors_to_contact env adjacent_sectors_ids
                                     (t_requesting_sector_id scenario_request))
                                  ([], snd s) of
                           (Inl ex, called, x1) \<Rightarrow> (Inl (gpsid, ex), called, g2, x1)
                         | (Inr u, called, x1) \<Rightarrow>
                             (Inr (TerminationSuccess gpsid), called, g2, x1))))))"

section \<open>A small federation for concrete runs\<close>

text \<open>
  This controller is sector 1; sectors 2 and 3 are adjacent; two links, on switches 10 and 11,
  lead to sector 3. The topology finds a path of two hops to every entity. Every peer
  refuses an activation and counts the call; a peer asked to terminate raises when
  it is sector \<open>down\<close>. The host looked up at the registry is in \<open>target_sector\<close>. In
  a set of sector ids, sector 4 comes first. In a second federation every peer accepts an
  activation and reports a path of length 7; in a third the registry does not answer.
\<close>

definition demo_path :: "entity_id \<Rightarrow> entity_id \<Rightarrow> local_path" where
  "demo_path a b =
     \<lparr>path = [(10, 1, 2), (10, 2, 1)], path_len = 2, remaining_bandwidth_average = 50,
      entity_a = a, entity_b = b\<rparr>"

definition demo_env :: "uuid \<Rightarrow> uuid \<Rightarrow> nat env" where
  "demo_env target_sector down =
     \<lparr>this_controller_id = 1,
      hash_order = (\<lambda>sector_id. if sector_id = 4 then 0 else 1),
      query_address_info =
        (\<lambda>address x. (Inr \<lparr>host_controller_id = target_sector, host_name = ''h''\<rparr>, x)),
      query_sectors_ids = (\<lambda>x. [2, 3]),
      query_edges_to_sector =
        (\<lambda>sector_id x. if sector_id = 3 then [(10, 1, 101), (11, 1, 102)] else []),
      query_entity_is_sector = (\<lambda>entity x. case entity of SectorEntity u \<Rightarrow> True | _ \<Rightarrow> False),
      construct_bidirectional_path = (\<lambda>a b bandwidth previous next x. (Inr (demo_path a b), x)),
      construct_unidirectional_path = (\<lambda>a b previous next x. (Inr (demo_path a b), x)),
      get_controller_proxy = (\<lambda>sector_id x. (Inr (), x)),
      proxy_activate_scenario =
        (\<lambda>sector_id request x.
           (Inr \<lparr>reply_success = False, reply_q_value = None, reply_path_length = None,
                 reply_reason = Some ''No available sectors to explore.''\<rparr>, Suc x)),
      proxy_terminate_scenario =
        (\<lambda>sector_id gpsid requester x.
           if sector_id = down then (Inl (OtherException ''Socket Closed''), Suc x)
           else (Inr False, Suc x)),
      icmpv4_flow_activation = (\<lambda>a_path label upstream source s. (Inr 7, s)),
      ipv4_generic_flow_activation = (\<lambda>a_path label upstream source s. (Inr 7, s)),
      sector_to_sector_mpls_flow_activation = (\<lambda>a_path label upstream s. (Inr 7, s))\<rparr>"

definition demo_globals :: globals where
  "demo_globals =
     initial_globals\<lparr>beacons_hash_table := [(101, (10, 1)), (102, (11, 1)), (103, (10, 2))]\<rparr>"

definition demo_request :: "uuid \<Rightarrow> string \<Rightarrow> activate_request" where
  "demo_request source scenario_type =
     \<lparr>global_path_search_id = (source, 5, 6, scenario_type),
      sector_requesting_service = 2, mpls_label = 17, hash_val = 100\<rparr>"

definition demo_active :: globals where
  "demo_active =
     demo_globals
       \<lparr>active_scenarios := [(4, 5, 6, ''ICMPv4'') \<mapsto> ([7], [2, 3, 4])],
        mapped_services := [((''IPv4'', ''ICMP''), [((''a'', ''b''), 7), ((''c'', ''d''), 8)])]\<rparr>"

definition demo_terminate :: terminate_request where
  "demo_terminate =
     \<lparr>t_global_path_search_id = (4, 5, 6, ''ICMPv4''), t_requesting_sector_id = 2\<rparr>"



definition demo_acceptance :: peer_reply where
  "demo_acceptance =
     \<lparr>reply_success = True, reply_q_value = Some 1, reply_path_length = Some 7,
      reply_reason = None\<rparr>"

definition demo_accepting_env :: "uuid \<Rightarrow> nat env" where
  "demo_accepting_env target_sector =
     (demo_env target_sector 0)
       \<lparr>proxy_activate_scenario := (\<lambda>sector_id request x. (Inr demo_acceptance, Suc x))\<rparr>"

definition demo_silent_registry_env :: "nat env" where
  "demo_silent_registry_env =
     (demo_env 3 0)
       \<lparr>query_address_info := (\<lambda>address x. (Inl (OtherException ''timeout''), Suc x))\<rparr>"

text \<open>The tables after an earlier activation found a path of length 2.\<close>

definition demo_known :: globals where
  "demo_known =
     demo_globals\<lparr>kspl := [EdgeKey 10 1 \<mapsto> [IPv4Address 6 \<mapsto> Some 2],
                            SectorKey 3 \<mapsto> [IPv4Address 6 \<mapsto> Some 2]]\<rparr>"

section \<open>Properties of the allocators\<close>

lemma compact_inv:
  assumes "distinct pool" "\<forall>x\<in>set pool. lb < x \<and> x \<le> counter" "lb \<le> counter"
    "compact counter pool = (c', p')"
  shows "distinct p' \<and> (\<forall>x\<in>set p'. lb < x \<and> x < c') \<and> lb \<le> c'
         \<and> {lb<..c'} - set p' = {lb<..counter} - set pool"
  using assms
proof (induction counter pool rule: compact.induct)
  case (1 counter pool)
  show ?case
  proof (cases "pool = []")
    case True
    with "1.prems" show ?thesis by (simp add: compact.simps)
  next
    case False
    then have mx: "Max (set pool) \<in> set pool" by (intro Max_in) auto
    show ?thesis
    proof (cases "counter = Max (set pool)")
      case True
      let ?p = "remove1 (Max (set pool)) pool"
      have eq: "compact (counter - 1) ?p = (c', p')"
        using "1.prems"(4) False True by (subst (asm) compact.simps) simp
      have d: "distinct ?p" using "1.prems"(1) by simp
      have s: "set ?p = set pool - {counter}" using "1.prems"(1) True by simp
      have b: "\<forall>x\<in>set ?p. lb < x \<and> x \<le> counter - 1"
        using "1.prems"(2) s by fastforce
      have l: "lb \<le> counter - 1" using "1.prems"(2) mx True by fastforce
      have "distinct p' \<and> (\<forall>x\<in>set p'. lb < x \<and> x < c') \<and> lb \<le> c'
         \<and> {lb<..c'} - set p' = {lb<..counter - 1} - set ?p"
      proof -
        have pos: "0 < length pool" using False by simp
        show ?thesis by (rule "1.IH"[OF pos True d b l eq])
      qed
      moreover have "{lb<..counter - 1} - set ?p = {lb<..counter} - set pool"
      proof -
        have cin: "counter \<in> set pool" using mx True by simp
        have "\<And>x. x \<notin> set pool \<Longrightarrow> x \<noteq> counter" using cin by blast
        then show ?thesis unfolding s by force
      qed
      ultimately show ?thesis by metis
    next
      case ne: False
      have "c' = counter" "p' = pool"
        using "1.prems"(4) False ne by (subst (asm) compact.simps, simp)+
      moreover have "\<forall>x\<in>set pool. x < counter"
      proof
        fix x assume "x \<in> set pool"
        then have "x \<le> Max (set pool)" by simp
        moreover have "Max (set pool) \<le> counter" using "1.prems"(2) mx by blast
        ultimately show "x < counter" using ne by linarith
      qed
      ultimately show ?thesis using "1.prems" by auto
    qed
  qed
qed

lemma alloc_inv_pop:
  assumes "alloc_inv lb c pool out" "pool \<noteq> []"
  shows "alloc_inv lb c (butlast pool) (last pool # out)"
proof -
  from assms(2) obtain ys y where p: "pool = ys @ [y]" by (metis rev_exhaust)
  show ?thesis using assms(1) unfolding p alloc_inv_def by auto
qed

lemma alloc_inv_incr:
  assumes "alloc_inv lb c [] out"
  shows "alloc_inv lb (c + 1) [] ((c + 1) # out)"
  using assms unfolding alloc_inv_def by auto

lemma alloc_inv_free:
  assumes "alloc_inv lb c pool out" "lb < i" "i \<le> c" "i \<notin> set pool"
    "compact c (pool @ [i]) = (c', p')"
  shows "alloc_inv lb c' p' (remove1 i out)"
proof -
  have d: "distinct (pool @ [i])" using assms unfolding alloc_inv_def by simp
  have b: "\<forall>x\<in>set (pool @ [i]). lb < x \<and> x \<le> c"
    using assms unfolding alloc_inv_def by auto
  have l: "lb \<le> c" using assms unfolding alloc_inv_def by simp
  note ci = compact_inv[OF d b l assms(5)]
  have "set (remove1 i out) = set out - {i}" using assms(1) unfolding alloc_inv_def by simp
  also have "\<dots> = {lb<..c} - set (pool @ [i])" using assms(1) unfolding alloc_inv_def by auto
  also have "\<dots> = {lb<..c'} - set p'" using ci by simp
  finally show ?thesis using ci assms(1) unfolding alloc_inv_def by simp
qed

lemma alloc_inv_empty:
  assumes "alloc_inv lb c pool []"
  shows "c = lb \<and> pool = []"
proof -
  have sub: "{lb<..c} \<subseteq> set pool" using assms unfolding alloc_inv_def by auto
  have "\<not> lb < c"
  proof
    assume "lb < c"
    then have "c \<in> set pool" using sub by auto
    then show False using assms unfolding alloc_inv_def by auto
  qed
  then have "c = lb" using assms unfolding alloc_inv_def by auto
  moreover have "pool = []"
  proof (cases pool)
    case (Cons x xs)
    then have "lb < x \<and> x < c" using assms unfolding alloc_inv_def by auto
    with \<open>c = lb\<close> show ?thesis by simp
  qed simp
  ultimately show ?thesis by simp
qed

lemma cookie_step_inv:
  assumes "alloc_inv 0 (cookie_id_counter g) (recycled_cookie_ids g) out"
    "cookie_step op (g, out) = (g', out')"
  shows "alloc_inv 0 (cookie_id_counter g') (recycled_cookie_ids g') out'"
proof (cases op)
  case Alloc
  show ?thesis
    using assms alloc_inv_pop[OF assms(1)] alloc_inv_incr[of 0 "cookie_id_counter g" out]
    unfolding Alloc by (auto simp: alloc_cookie_id_def split: if_splits)
next
  case (Free i)
  show ?thesis
    using assms alloc_inv_free[OF assms(1), of i]
    unfolding Free by (auto simp: free_cookie_id_def split: if_splits prod.splits)
qed

lemma mpls_step_inv:
  assumes "alloc_inv 16 (mpls_label_id_counter g) (recycled_mpls_labels g) out"
    "mpls_step op (g, out) = (g', out')"
  shows "alloc_inv 16 (mpls_label_id_counter g') (recycled_mpls_labels g') out'"
proof (cases op)
  case Alloc
  show ?thesis
    using assms alloc_inv_pop[OF assms(1)] alloc_inv_incr[of 16 "mpls_label_id_counter g" out]
    unfolding Alloc by (auto simp: alloc_mpls_label_id_def split: if_splits)
next
  case (Free i)
  show ?thesis
    using assms alloc_inv_free[OF assms(1), of i]
    unfolding Free by (auto simp: free_mpls_label_id_def split: if_splits prod.splits)
qed

lemma cookie_run_inv:
  "alloc_inv 0 (cookie_id_counter (fst s)) (recycled_cookie_ids (fst s)) (snd s) \<Longrightarrow>
   alloc_inv 0 (cookie_id_counter (fst (fold cookie_step ops s)))
     (recycled_cookie_ids (fst (fold cookie_step ops s))) (snd (fold cookie_step ops s))"
proof (induction ops arbitrary: s)
  case Nil then show ?case by simp
next
  case (Cons op ops)
  obtain g out where s: "s = (g, out)" by (cases s)
  obtain g' out' where st: "cookie_step op (g, out) = (g', out')" by (cases "cookie_step op (g, out)")
  have "alloc_inv 0 (cookie_id_counter g') (recycled_cookie_ids g') out'"
    using cookie_step_inv[OF _ st] Cons.prems s by simp
  then show ?case using Cons.IH[of "(g', out')"] s st by simp
qed

lemma mpls_run_inv:
  "alloc_inv 16 (mpls_label_id_counter (fst s)) (recycled_mpls_labels (fst s)) (snd s) \<Longrightarrow>
   alloc_inv 16 (mpls_label_id_counter (fst (fold mpls_step ops s)))
     (recycled_mpls_labels (fst (fold mpls_step ops s))) (snd (fold mpls_step ops s))"
proof (induction ops arbitrary: s)
  case Nil then show ?case by simp
next
  case (Cons op ops)
  obtain g out where s: "s = (g, out)" by (cases s)
  obtain g' out' where st: "mpls_step op (g, out) = (g', out')" by (cases "mpls_step op (g, out)")
  have "alloc_inv 16 (mpls_label_id_counter g') (recycled_mpls_labels g') out'"
    using mpls_step_inv[OF _ st] Cons.prems s by simp
  then show ?case using Cons.IH[of "(g', out')"] s st by simp
qed


text \<open>
  C6. Take any sequence of alloc and free calls on the cookie allocator (respectively the MPLS
  label allocator), started in the initial state. If at its end no identifier is outstanding,
  that is every identifier handed out has been given back, then the counter is back at its
  initial value (0 for cookies, 16 for labels) and the recycle pool is empty.
\<close>

theorem free_all_returns_to_initial:
  "(snd (run_cookie_ops ops) = [] \<longrightarrow>
      cookie_id_counter (fst (run_cookie_ops ops)) = 0 \<and>
      recycled_cookie_ids (fst (run_cookie_ops ops)) = []) \<and>
   (snd (run_mpls_ops ops') = [] \<longrightarrow>
      mpls_label_id_counter (fst (run_mpls_ops ops')) = 16 \<and>
      recycled_mpls_labels (fst (run_mpls_ops ops')) = [])"
proof -
  have c0: "alloc_inv 0 (cookie_id_counter (fst (initial_globals, [])))
              (recycled_cookie_ids (fst (initial_globals, []))) (snd (initial_globals, []))"
    by (simp add: alloc_inv_def initial_globals_def)
  have m0: "alloc_inv 16 (mpls_label_id_counter (fst (initial_globals, [])))
              (recycled_mpls_labels (fst (initial_globals, []))) (snd (initial_globals, []))"
    by (simp add: alloc_inv_def initial_globals_def)
  show ?thesis
    using cookie_run_inv[OF c0, of ops] mpls_run_inv[OF m0, of ops']
      alloc_inv_empty[of 0 "cookie_id_counter (fst (run_cookie_ops ops))"
        "recycled_cookie_ids (fst (run_cookie_ops ops))"]
      alloc_inv_empty[of 16 "mpls_label_id_counter (fst (run_mpls_ops ops'))"
        "recycled_mpls_labels (fst (run_mpls_ops ops'))"]
    unfolding run_cookie_ops_def run_mpls_ops_def by auto
qed

lemma cookie_example:
  "snd (run_cookie_ops [Alloc, Alloc, Alloc, Free 2, Free 1, Alloc, Free 3, Free 1]) = []"
  by (simp add: run_cookie_ops_def initial_globals_def alloc_cookie_id_def
      free_cookie_id_def compact.simps)

lemma mpls_example:
  "snd (run_mpls_ops [Alloc, Alloc, Alloc, Free 18, Free 17, Alloc, Free 19, Free 17]) = []"
  by (simp add: run_mpls_ops_def initial_globals_def alloc_mpls_label_id_def
      free_mpls_label_id_def compact.simps)

theorem free_all_returns_to_initial_witness:
  "snd (run_cookie_ops [Alloc, Alloc, Alloc, Free 2, Free 1, Alloc, Free 3, Free 1]) = [] \<and>
   cookie_id_counter (fst (run_cookie_ops
       [Alloc, Alloc, Alloc, Free 2, Free 1, Alloc, Free 3, Free 1])) = 0 \<and>
   recycled_cookie_ids (fst (run_cookie_ops
       [Alloc, Alloc, Alloc, Free 2, Free 1, Alloc, Free 3, Free 1])) = [] \<and>
   snd (run_mpls_ops [Alloc, Alloc, Alloc, Free 18, Free 17, Alloc, Free 19, Free 17]) = [] \<and>
   mpls_label_id_counter (fst (run_mpls_ops
       [Alloc, Alloc, Alloc, Free 18, Free 17, Alloc, Free 19, Free 17])) = 16 \<and>
   recycled_mpls_labels (fst (run_mpls_ops
       [Alloc, Alloc, Alloc, Free 18, Free 17, Alloc, Free 19, Free 17])) = []"
  using free_all_returns_to_initial
    [of "[Alloc, Alloc, Alloc, Free 2, Free 1, Alloc, Free 3, Free 1]"
        "[Alloc, Alloc, Alloc, Free 18, Free 17, Alloc, Free 19, Free 17]"]
    cookie_example mpls_example
  by simp


text \<open>
  C7. In every allocator state, freeing an identifier that is already in the recycle pool, or
  one outside the interval from the lower bound (exclusive) to the counter (inclusive), raises
  \<open>ValueError\<close> (the invalid-argument error of this module) and leaves counter and
  pool as they were.
\<close>

theorem free_invalid_raises:
  "(cookie_id \<le> 0 \<or> cookie_id > cookie_id_counter g \<or> cookie_id \<in> set (recycled_cookie_ids g)
      \<longrightarrow> (\<exists>msg. free_cookie_id cookie_id g = (Inl (ValueError msg), g))) \<and>
   (label_id \<le> 16 \<or> label_id > mpls_label_id_counter g \<or> label_id \<in> set (recycled_mpls_labels g)
      \<longrightarrow> (\<exists>msg. free_mpls_label_id label_id g = (Inl (ValueError msg), g)))"
  by (auto simp: free_cookie_id_def free_mpls_label_id_def)


theorem free_invalid_raises_witness:
  "(\<exists>msg. free_cookie_id 2
      (initial_globals\<lparr>cookie_id_counter := 3, recycled_cookie_ids := [2],
         mpls_label_id_counter := 20\<rparr>)
      = (Inl (ValueError msg),
         initial_globals\<lparr>cookie_id_counter := 3, recycled_cookie_ids := [2],
           mpls_label_id_counter := 20\<rparr>)) \<and>
   (\<exists>msg. free_mpls_label_id 40
      (initial_globals\<lparr>cookie_id_counter := 3, recycled_cookie_ids := [2],
         mpls_label_id_counter := 20\<rparr>)
      = (Inl (ValueError msg),
         initial_globals\<lparr>cookie_id_counter := 3, recycled_cookie_ids := [2],
           mpls_label_id_counter := 20\<rparr>))"
  using free_invalid_raises
    [of 2 "initial_globals\<lparr>cookie_id_counter := 3, recycled_cookie_ids := [2],
             mpls_label_id_counter := 20\<rparr>" 40]
  by (simp add: initial_globals_def)

lemma n_allocs:
  "recycled_mpls_labels g = [] \<Longrightarrow> mpls_label_id_counter g + int n \<le> 0x100000 \<Longrightarrow>
   recycled_mpls_labels (fst (fold mpls_step (replicate n Alloc) (g, out))) = [] \<and>
   mpls_label_id_counter (fst (fold mpls_step (replicate n Alloc) (g, out)))
     = mpls_label_id_counter g + int n"
proof (induction n arbitrary: g out)
  case 0
  then show ?case by simp
next
  case (Suc n)
  let ?g = "g\<lparr>mpls_label_id_counter := mpls_label_id_counter g + 1\<rparr>"
  have st: "mpls_step Alloc (g, out) = (?g, (mpls_label_id_counter g + 1) # out)"
    using Suc.prems by (simp add: alloc_mpls_label_id_def)
  have "recycled_mpls_labels ?g = []" "mpls_label_id_counter ?g + int n \<le> 0x100000"
    using Suc.prems by simp_all
  from Suc.IH[OF this, of "(mpls_label_id_counter g + 1) # out"] show ?case
    by (simp add: st funpow_swap1 del: mpls_step.simps)
qed


text \<open>
  C4. The claim is that no label handed out reaches \<open>2^20\<close>. The allocator refuses only
  when its counter equals \<open>0x100000\<close>, so from the state reached by 1048559 allocations
  (counter \<open>0xFFFFF\<close>, empty pool) the next allocation returns \<open>0x100000 = 2^20\<close>.
\<close>

theorem alloc_mpls_label_id_hands_out_0x100000:
  "fst (alloc_mpls_label_id (fst (run_mpls_ops (replicate 1048559 Alloc)))) = Inr (2 ^ 20)"
proof -
  have "recycled_mpls_labels initial_globals = []"
       "mpls_label_id_counter initial_globals + int 1048559 \<le> 0x100000"
    by (simp_all add: initial_globals_def)
  from n_allocs[OF this, of "[]"] show ?thesis
    by (simp add: run_mpls_ops_def alloc_mpls_label_id_def initial_globals_def)
qed


lemma compact_le: "compact counter pool = (c', p') \<Longrightarrow> c' \<le> counter"
proof (induction counter pool rule: compact.induct)
  case (1 counter pool)
  show ?case
  proof (cases "0 < length pool \<and> counter = Max (set pool)")
    case True
    then have "compact (counter - 1) (remove1 (Max (set pool)) pool) = (c', p')"
      using "1.prems" by (subst (asm) compact.simps) simp
    then have "c' \<le> counter - 1"
      using "1.IH" True by blast
    then show ?thesis by simp
  next
    case False
    then have "c' = counter"
      using "1.prems" by (subst (asm) compact.simps) (auto split: if_splits)
    then show ?thesis by simp
  qed
qed

lemma mpls_step_counter_le:
  assumes "mpls_label_id_counter g \<le> 0x100000"
  shows "mpls_label_id_counter (fst (mpls_step op (g, out))) \<le> 0x100000"
proof (cases op)
  case Alloc
  then show ?thesis
    using assms by (simp add: alloc_mpls_label_id_def)
next
  case (Free i)
  obtain c' p' where c: "compact (mpls_label_id_counter g) (recycled_mpls_labels g @ [i]) = (c', p')"
    by (cases "compact (mpls_label_id_counter g) (recycled_mpls_labels g @ [i])")
  have "c' \<le> mpls_label_id_counter g"
    by (rule compact_le[OF c])
  then show ?thesis
    using assms c unfolding Free by (simp add: free_mpls_label_id_def)
qed

lemma mpls_run_counter_le:
  "mpls_label_id_counter (fst s) \<le> 0x100000 \<Longrightarrow>
   mpls_label_id_counter (fst (fold mpls_step ops s)) \<le> 0x100000"
proof (induction ops arbitrary: s)
  case Nil
  then show ?case by simp
next
  case (Cons op ops)
  obtain g out where s: "s = (g, out)" by (cases s)
  have "mpls_label_id_counter (fst (mpls_step op (g, out))) \<le> 0x100000"
    using mpls_step_counter_le Cons.prems s by simp
  then show ?case
    using Cons.IH[of "mpls_step op (g, out)"] s by simp
qed

text \<open>
  X2. In every state reached from the initial one by alloc and free calls, a label handed out
  by \<open>alloc_mpls_label_id\<close> lies between 17 and \<open>2^20\<close>, both included.
\<close>

theorem alloc_mpls_label_id_range:
  "fst (alloc_mpls_label_id (fst (run_mpls_ops ops))) = Inr label_id
     \<longrightarrow> 17 \<le> label_id \<and> label_id \<le> 2 ^ 20"
proof
  let ?g = "fst (run_mpls_ops ops)"
  assume a: "fst (alloc_mpls_label_id ?g) = Inr label_id"
  have m0: "alloc_inv 16 (mpls_label_id_counter (fst (initial_globals, [])))
              (recycled_mpls_labels (fst (initial_globals, []))) (snd (initial_globals, []))"
    by (simp add: alloc_inv_def initial_globals_def)
  have inv: "alloc_inv 16 (mpls_label_id_counter ?g) (recycled_mpls_labels ?g)
               (snd (run_mpls_ops ops))"
    using mpls_run_inv[OF m0, of ops] by (simp add: run_mpls_ops_def)
  have le: "mpls_label_id_counter ?g \<le> 0x100000"
    using mpls_run_counter_le[of "(initial_globals, [])" ops]
    by (simp add: run_mpls_ops_def initial_globals_def)
  show "17 \<le> label_id \<and> label_id \<le> 2 ^ 20"
  proof (cases "recycled_mpls_labels ?g = []")
    case True
    then have "label_id = mpls_label_id_counter ?g + 1" "mpls_label_id_counter ?g \<noteq> 0x100000"
      using a by (auto simp: alloc_mpls_label_id_def split: if_splits)
    moreover have "16 \<le> mpls_label_id_counter ?g"
      using inv by (simp add: alloc_inv_def)
    ultimately show ?thesis using le by simp
  next
    case False
    then have "label_id = last (recycled_mpls_labels ?g)"
      using a by (auto simp: alloc_mpls_label_id_def split: if_splits)
    then have "label_id \<in> set (recycled_mpls_labels ?g)"
      using False by simp
    then have "16 < label_id \<and> label_id < mpls_label_id_counter ?g"
      using inv by (simp add: alloc_inv_def)
    then show ?thesis using le by simp
  qed
qed

theorem alloc_mpls_label_id_range_witness:
  "fst (alloc_mpls_label_id (fst (run_mpls_ops [Alloc, Alloc, Free 17]))) = Inr 17 \<and>
   (17 :: int) \<le> 17 \<and> (17 :: int) \<le> 2 ^ 20"
proof -
  have a: "fst (alloc_mpls_label_id (fst (run_mpls_ops [Alloc, Alloc, Free 17]))) = Inr 17"
    by (simp add: run_mpls_ops_def initial_globals_def alloc_mpls_label_id_def
        free_mpls_label_id_def compact.simps)
  from alloc_mpls_label_id_range[of "[Alloc, Alloc, Free 17]" 17] a show ?thesis
    by simp
qed

section \<open>Properties of the Q-table\<close>

lemma set_q_value_after_get:
  "set_q_value k t v (snd (get_q_value k t g)) = snd (get_q_value k t g)"
  by (auto simp: get_q_value_def set_q_value_def Let_def split: option.splits)

text \<open>
  X4. When the cell of a key and target does not exist, \<open>set_q_value\<close> creates it with the
  value given, and the next read returns that value.
\<close>

theorem set_q_value_absent:
  "(\<forall>row. QValues g k = Some row \<longrightarrow> row t = None) \<longrightarrow>
   fst (get_q_value k t (set_q_value k t v g)) = v"
  by (auto simp: get_q_value_def set_q_value_def Let_def split: option.splits)

theorem set_q_value_absent_witness:
  "QValues initial_globals (SectorKey 7) = None \<and>
   fst (get_q_value (SectorKey 7) (IPv4Address 1)
          (set_q_value (SectorKey 7) (IPv4Address 1) 5 initial_globals)) = 5"
proof -
  have a: "QValues initial_globals (SectorKey 7) = None"
    by (simp add: initial_globals_def)
  then have b: "\<forall>row. QValues initial_globals (SectorKey 7) = Some row
                  \<longrightarrow> row (IPv4Address 1) = None"
    by simp
  from set_q_value_absent[of initial_globals "SectorKey 7" "IPv4Address 1" 5] a b show ?thesis
    by blast
qed

text \<open>
  X1. The Q-value update that follows a peer failure reads the cell, which creates it when it
  does not exist, and then calls \<open>set_q_value\<close> on the same cell: the state after the update
  is the state after the read, and the stored Q-value is not changed.
\<close>

theorem q_penalty_leaves_stored_value:
  "peer_failure_update key target forward_q_value g = snd (get_q_value key target g)"
  by (auto simp: peer_failure_update_def get_q_value_def set_q_value_def Let_def
      split: option.splits prod.splits)

text \<open>
  C1. The claim is that a read after \<open>set_q_value\<close> returns the value written, also when
  the cell already holds a value. With the cell holding 2, writing 5 leaves it at 2.
\<close>

theorem set_q_value_does_not_overwrite:
  "fst (get_q_value (SectorKey 7) (IPv4Address 1)
         (set_q_value (SectorKey 7) (IPv4Address 1) 5
            (initial_globals\<lparr>QValues := [SectorKey 7 \<mapsto> [IPv4Address 1 \<mapsto> 2]]\<rparr>))) = 2"
  by (simp add: get_q_value_def set_q_value_def)

section \<open>Properties of the request server\<close>

text \<open>
  X3. A request that is a tuple of three components whose first is a string outside the
  dispatch table is answered with status 1; the text is "Unknown Request: function name is
  not registered " when \<open>sys.flags.debug\<close> is set and "Internal Error. Cannot process
  request." otherwise. No handler is called and the state is as before.
\<close>

theorem unregistered_method_reply:
  "func_name \<notin> set requests_names \<longrightarrow>
   handle_request debug handlers (PyTuple [PyStr func_name, args, kwargs]) w
     = ((1, PyStr (if debug then ''Unknown Request: function name is not registered ''
                   else ''Internal Error. Cannot process request.'')), w)"
  by (simp add: handle_request_def check_request_def)

theorem unregistered_method_reply_witness:
  "''stop'' \<notin> set requests_names \<and>
   handle_request True (\<lambda>name args kwargs w. (Inr PyOther, w))
     (PyTuple [PyStr ''stop'', PyOther, PyOther]) (0 :: nat)
     = ((1, PyStr ''Unknown Request: function name is not registered ''), 0)"
proof -
  have a: "''stop'' \<notin> set requests_names"
    by (simp add: requests_names_def)
  from unregistered_method_reply
    [of "''stop''" True "\<lambda>name args kwargs w. (Inr PyOther, w)" PyOther PyOther "0 :: nat"] a
  show ?thesis
    by simp
qed

text \<open>
  C5. The claim is that a well-formed request for a method outside the dispatch table is
  answered with status 1 and an "Unknown Request" text. The assertion on the method name
  fails before the table is indexed, so the handler for \<open>KeyError\<close> is not the one
  that runs: with \<open>sys.flags.debug\<close> off, the request \<open>("reboot", (), {})\<close> is
  answered with status 1 and the text "Internal Error. Cannot process request.".
\<close>

theorem unknown_request_internal_error:
  "fst (handle_request False handlers (PyTuple [PyStr ''reboot'', PyTuple [], PyOther]) w)
     = (1, PyStr ''Internal Error. Cannot process request.'')"
  by (simp add: handle_request_def check_request_def requests_names_def)

section \<open>Properties of the feedback to the learner\<close>

lemma kspl_get_after_set:
  "fst (get_known_shortest_path key target (set_known_shortest_path key target v g)) = Some v"
  by (simp add: get_known_shortest_path_def set_known_shortest_path_def Let_def
      split: option.splits)

lemma refresh_known_shortest_path_eq:
  "refresh_known_shortest_path key target pl g
     = set_known_shortest_path key target (pl + 1) (snd (get_known_shortest_path key target g))"
  by (simp add: refresh_known_shortest_path_def split: prod.splits)

lemma kspl_get_q_value [simp]: "kspl (snd (get_q_value k t g)) = kspl g"
  by (simp add: get_q_value_def Let_def split: option.splits)

lemma kspl_set_q_value [simp]: "kspl (set_q_value k t v g) = kspl g"
  by (simp add: set_q_value_def split: option.splits)

lemma get_kspl_cong:
  "kspl g = kspl g' \<Longrightarrow>
   fst (get_known_shortest_path key target g) = fst (get_known_shortest_path key target g')"
  by (auto simp: get_known_shortest_path_def Let_def)

lemma get_kspl_idem:
  "fst (get_known_shortest_path key target (snd (get_known_shortest_path key target g)))
     = fst (get_known_shortest_path key target g)"
  by (auto simp: get_known_shortest_path_def Let_def)

lemma peer_success_update_kspl:
  assumes "reply_path_length service_activation_result = Some peer_path_length"
  shows "fst (get_known_shortest_path key kspl_target
                (snd (peer_success_update key kspl_target q_target service_activation_result
                        a_path forward_q_value g)))
           = Some (peer_path_length + 1)"
proof -
  let ?g0 = "refresh_known_shortest_path key kspl_target peer_path_length g"
  have r: "fst (get_known_shortest_path key kspl_target ?g0) = Some (peer_path_length + 1)"
    by (simp add: refresh_known_shortest_path_eq kspl_get_after_set)
  obtain known g1 where k: "get_known_shortest_path key kspl_target ?g0 = (known, g1)"
    by (cases "get_known_shortest_path key kspl_target ?g0")
  have known: "known = Some (peer_path_length + 1)" using r k by simp
  have g1: "fst (get_known_shortest_path key kspl_target g1) = Some (peer_path_length + 1)"
    using get_kspl_idem[of key kspl_target ?g0] k r by simp
  show ?thesis
  proof (cases "peer_path_length + 1 = 0")
    case True
    then show ?thesis
      using assms k known g1 by (simp add: peer_success_update_def)
  next
    case False
    obtain old g2 where q: "get_q_value key q_target g1 = (old, g2)"
      by (cases "get_q_value key q_target g1")
    have "kspl g2 = kspl g1" using kspl_get_q_value[of key q_target g1] q by simp
    then have "kspl (set_q_value key q_target v g2) = kspl g1" for v by simp
    then have "fst (get_known_shortest_path key kspl_target (set_q_value key q_target v g2))
                 = Some (peer_path_length + 1)" for v
      using get_kspl_cong[of "set_q_value key q_target v g2" g1] g1 by simp
    then show ?thesis
      using assms k known q False by (simp add: peer_success_update_def Let_def)
  qed
qed

lemma kspl_run_installer: "kspl (fst (snd (run_installer install s))) = kspl (fst s)"
  by (simp add: run_installer_def split: prod.splits)

lemma kspl_set_active_scenario: "kspl (snd (set_active_scenario gpsid info g)) = kspl g"
  by (simp add: set_active_scenario_def)

lemma kspl_complete_activation:
  "kspl (fst (snd (complete_activation gpsid key kspl_target q_target service_activation_result
                     a_path install adjacent_sectors (g, x))))
     = kspl (snd (peer_success_update key kspl_target q_target service_activation_result a_path
                    (forward_q_value_of service_activation_result) g))"
proof -
  obtain o1 g1 where a: "peer_success_update key kspl_target q_target service_activation_result
      a_path (forward_q_value_of service_activation_result) g = (o1, g1)"
    by (cases "peer_success_update key kspl_target q_target service_activation_result
      a_path (forward_q_value_of service_activation_result) g")
  obtain o2 g2 x2 where b: "run_installer install (g1, x) = (o2, g2, x2)"
    by (cases "run_installer install (g1, x)")
  have k2: "kspl g2 = kspl g1"
    using kspl_run_installer[of install "(g1, x)"] b by simp
  have k3: "kspl (snd (set_active_scenario gpsid info g2)) = kspl g1" for info
    using k2 by (simp add: kspl_set_active_scenario)
  show ?thesis
  proof (cases o1)
    case (Inl ex)
    then show ?thesis using a by (simp add: complete_activation_def)
  next
    case (Inr new_q_value)
    note o1 = Inr
    show ?thesis
    proof (cases o2)
      case (Inl ex)
      then show ?thesis using a b o1 k2 by (simp add: complete_activation_def)
    next
      case (Inr local_service_scenario)
      obtain o3 g3 where c: "set_active_scenario gpsid
          ([local_service_scenario], adjacent_sectors) g2 = (o3, g3)"
        by (cases "set_active_scenario gpsid ([local_service_scenario], adjacent_sectors) g2")
      have "kspl g3 = kspl g1"
        using k3[of "([local_service_scenario], adjacent_sectors)"] c by simp
      then show ?thesis
        using a b o1 Inr c
        by (simp add: complete_activation_def split: sum.splits option.splits)
    qed
  qed
qed

lemma complete_activation_kspl:
  assumes "reply_path_length service_activation_result = Some peer_path_length"
  shows "fst (get_known_shortest_path key kspl_target
           (fst (snd (complete_activation gpsid key kspl_target q_target service_activation_result
                        a_path install adjacent_sectors (g, x)))))
         = Some (peer_path_length + 1)"
  using get_kspl_cong[OF kspl_complete_activation] peer_success_update_kspl[OF assms]
  by metis

lemma explore_done:
  assumes "candidates \<noteq> []"
    and "select_candidate key_of candidates target g = (selected, g1)"
    and "attempt selected (remove1 selected candidates) (g1, x) = (outcome, s)"
    and "outcome \<noteq> Inr None"
  shows "explore key_of target attempt candidates (g, x) = (outcome, s)"
  using assms by (subst explore.simps) (simp split: sum.splits option.splits)

lemma icmpv4_adjacent_target_success:
  assumes "explore link_edge
             (IPv4Address (fst (snd (snd (global_path_search_id req)))))
             (icmpv4_adjacent_path_attempt env req (host_controller_id target_host_info))
             (query_edges_to_sector env (host_controller_id target_host_info) x) (g, x)
           = (Inr (Some (selected_link, bidirectional_path)), g1, x1)"
    and "path_len bidirectional_path \<noteq> 0"
    and "alloc_mpls_label_id g1 = (Inr local_mpls_label, g2)"
    and "get_controller_proxy env (host_controller_id target_host_info) x1 = (Inr u, x2)"
    and "call_peer env (host_controller_id target_host_info) (global_path_search_id req)
           local_mpls_label (fst selected_link) (fst (snd selected_link)) g2 x2
           = (service_activation_result, x3)"
    and "reply_success service_activation_result"
  shows "icmpv4_adjacent_target env req target_host_info (g, x)
           = complete_activation (global_path_search_id req) (link_edge selected_link)
               (IPv4Address (fst (snd (snd (global_path_search_id req)))))
               (IPv4Address (fst (snd (snd (global_path_search_id req)))))
               service_activation_result bidirectional_path
               (sector_to_sector_mpls_flow_activation env bidirectional_path
                  (Some local_mpls_label) (mpls_label req))
               [sector_requesting_service req, host_controller_id target_host_info] (g2, x3)"
  using assms by (simp add: icmpv4_adjacent_target_def Let_def)

lemma icmpv4_forward_attempt_success:
  assumes "construct_bidirectional_path env (SectorEntity (sector_requesting_service req))
             (SectorEntity (snd (snd (snd selected_link)))) 100 (hash_val req)
             (Some (fst (snd (snd selected_link)))) x = (Inr bidirectional_path, x1)"
    and "path_len bidirectional_path \<noteq> 0"
    and "alloc_mpls_label_id g = (Inr local_mpls_label, g1)"
    and "connect_and_call_peer env (snd (snd (snd selected_link))) (global_path_search_id req)
           local_mpls_label (fst selected_link) (fst (snd selected_link)) g1 x1
           = (service_activation_result, x2)"
    and "reply_success service_activation_result"
    and "complete_activation (global_path_search_id req) (link_edge selected_link)
           (IPv4Address (fst (snd (snd (global_path_search_id req)))))
           (IPv4Address (fst (snd (snd (global_path_search_id req)))))
           service_activation_result bidirectional_path
           (\<lambda>s'. if query_entity_is_sector env (entity_a bidirectional_path) (snd s')
                     \<and> query_entity_is_sector env (entity_b bidirectional_path) (snd s')
                  then sector_to_sector_mpls_flow_activation env bidirectional_path
                         (Some local_mpls_label) (mpls_label req) s'
                  else icmpv4_flow_activation env bidirectional_path
                         (Some local_mpls_label) (mpls_label req) None s')
           [sector_requesting_service req, snd (snd (snd selected_link))] (g1, x2)
         = (completed, s3)"
  shows "icmpv4_forward_attempt env req selected_link possible_links (g, x)
           = ((case completed of Inl ex \<Rightarrow> Inl ex | Inr answer \<Rightarrow> Inr (Some answer)), s3)"
  using assms
  by (simp add: icmpv4_forward_attempt_def Let_def split: sum.splits)

lemma ipv4_adjacent_target_success:
  assumes "construct_unidirectional_path env (SectorEntity (sector_requesting_service req))
             (SectorEntity (host_controller_id target_host_info)) (hash_val req) None x
           = (Inr unidirectional_path, x1)"
    and "path_len unidirectional_path \<noteq> 0"
    and "alloc_mpls_label_id g = (Inr local_mpls_label, g1)"
    and "second_last (path unidirectional_path) = Inr hop"
    and "get_controller_proxy env (host_controller_id target_host_info) x1 = (Inr u, x2)"
    and "call_peer env (host_controller_id target_host_info) (global_path_search_id req)
           local_mpls_label (fst hop) (snd (snd hop)) g1 x2 = (service_activation_result, x3)"
    and "reply_success service_activation_result"
  shows "ipv4_adjacent_target env req target_host_info (g, x)
           = complete_activation (global_path_search_id req)
               (SectorKey (host_controller_id target_host_info))
               (IPv4Address (fst (snd (snd (global_path_search_id req)))))
               (IPv4Str (fst (snd (snd (global_path_search_id req)))))
               service_activation_result unidirectional_path
               (sector_to_sector_mpls_flow_activation env unidirectional_path
                  (Some local_mpls_label) (mpls_label req))
               [sector_requesting_service req, host_controller_id target_host_info] (g1, x3)"
  using assms by (simp add: ipv4_adjacent_target_def Let_def)

lemma ipv4_forward_attempt_success:
  assumes "construct_unidirectional_path env (SectorEntity (sector_requesting_service req))
             (SectorEntity selected_sector_id) (hash_val req) None x
           = (Inr unidirectional_path, x1)"
    and "path_len unidirectional_path \<noteq> 0"
    and "alloc_mpls_label_id g = (Inr local_mpls_label, g1)"
    and "second_last (path unidirectional_path) = Inr hop"
    and "connect_and_call_peer env selected_sector_id (global_path_search_id req)
           local_mpls_label (fst hop) (snd (snd hop)) g1 x1 = (service_activation_result, x2)"
    and "reply_success service_activation_result"
    and "complete_activation (global_path_search_id req) (SectorKey selected_sector_id)
           (IPv4Address (fst (snd (snd (global_path_search_id req)))))
           (IPv4Str (fst (snd (snd (global_path_search_id req)))))
           service_activation_result unidirectional_path
           (\<lambda>s'. if query_entity_is_sector env (entity_a unidirectional_path) (snd s')
                     \<and> query_entity_is_sector env (entity_b unidirectional_path) (snd s')
                  then sector_to_sector_mpls_flow_activation env unidirectional_path
                         (Some local_mpls_label) (mpls_label req) s'
                  else ipv4_generic_flow_activation env unidirectional_path
                         (Some local_mpls_label) (mpls_label req) None s')
           [sector_requesting_service req, selected_sector_id] (g1, x2)
         = (completed, s3)"
  shows "ipv4_forward_attempt env req selected_sector_id sectors (g, x)
           = ((case completed of Inl ex \<Rightarrow> Inl ex | Inr answer \<Rightarrow> Inr (Some answer)), s3)"
  using assms
  by (simp add: ipv4_forward_attempt_def Let_def split: sum.splits)

lemma icmpv4_adjacent_target_kspl:
  assumes "explore link_edge
             (IPv4Address (fst (snd (snd (global_path_search_id req)))))
             (icmpv4_adjacent_path_attempt env req (host_controller_id target_host_info))
             (query_edges_to_sector env (host_controller_id target_host_info) x) (g, x)
           = (Inr (Some (selected_link, bidirectional_path)), g1, x1)"
    and "path_len bidirectional_path \<noteq> 0"
    and "alloc_mpls_label_id g1 = (Inr local_mpls_label, g2)"
    and "get_controller_proxy env (host_controller_id target_host_info) x1 = (Inr u, x2)"
    and "call_peer env (host_controller_id target_host_info) (global_path_search_id req)
           local_mpls_label (fst selected_link) (fst (snd selected_link)) g2 x2
           = (service_activation_result, x3)"
    and "reply_success service_activation_result"
    and "reply_path_length service_activation_result = Some peer_path_length"
  shows "fst (get_known_shortest_path (link_edge selected_link)
                (IPv4Address (fst (snd (snd (global_path_search_id req)))))
                (fst (snd (icmpv4_adjacent_target env req target_host_info (g, x)))))
           = Some (peer_path_length + 1)"
  unfolding icmpv4_adjacent_target_success[OF assms(1-6)]
  by (rule complete_activation_kspl[OF assms(7)])

lemma icmpv4_explore_kspl:
  assumes "possible_links \<noteq> []"
    and "select_candidate link_edge possible_links
           (IPv4Address (fst (snd (snd (global_path_search_id req))))) g = (selected_link, g1)"
    and "construct_bidirectional_path env (SectorEntity (sector_requesting_service req))
           (SectorEntity (snd (snd (snd selected_link)))) 100 (hash_val req)
           (Some (fst (snd (snd selected_link)))) x = (Inr bidirectional_path, x1)"
    and "path_len bidirectional_path \<noteq> 0"
    and "alloc_mpls_label_id g1 = (Inr local_mpls_label, g2)"
    and "connect_and_call_peer env (snd (snd (snd selected_link))) (global_path_search_id req)
           local_mpls_label (fst selected_link) (fst (snd selected_link)) g2 x1
           = (service_activation_result, x2)"
    and "reply_success service_activation_result"
    and "reply_path_length service_activation_result = Some peer_path_length"
  shows "fst (get_known_shortest_path (link_edge selected_link)
                (IPv4Address (fst (snd (snd (global_path_search_id req)))))
                (fst (snd (explore link_edge
                             (IPv4Address (fst (snd (snd (global_path_search_id req)))))
                             (icmpv4_forward_attempt env req) possible_links (g, x)))))
           = Some (peer_path_length + 1)"
proof -
  let ?target = "IPv4Address (fst (snd (snd (global_path_search_id req))))"
  let ?install = "\<lambda>s'. if query_entity_is_sector env (entity_a bidirectional_path) (snd s')
                     \<and> query_entity_is_sector env (entity_b bidirectional_path) (snd s')
                  then sector_to_sector_mpls_flow_activation env bidirectional_path
                         (Some local_mpls_label) (mpls_label req) s'
                  else icmpv4_flow_activation env bidirectional_path
                         (Some local_mpls_label) (mpls_label req) None s'"
  let ?c = "complete_activation (global_path_search_id req) (link_edge selected_link)
              ?target ?target service_activation_result bidirectional_path ?install
              [sector_requesting_service req, snd (snd (snd selected_link))] (g2, x2)"
  obtain completed s3 where c: "?c = (completed, s3)"
    by (cases ?c)
  let ?outcome = "case completed of Inl ex \<Rightarrow> Inl ex | Inr answer \<Rightarrow> Inr (Some answer)"
  have a: "icmpv4_forward_attempt env req selected_link (remove1 selected_link possible_links)
             (g1, x) = (?outcome, s3)"
    by (rule icmpv4_forward_attempt_success[OF assms(3-7) c])
  have b: "?outcome \<noteq> Inr None"
    by (cases completed) simp_all
  have "explore link_edge ?target (icmpv4_forward_attempt env req) possible_links (g, x)
          = (?outcome, s3)"
    using assms(1) assms(2) a b
    by (rule explore_done[where attempt = "icmpv4_forward_attempt env req"
          and key_of = link_edge and selected = selected_link])
  moreover have "fst (get_known_shortest_path (link_edge selected_link) ?target (fst s3))
                   = Some (peer_path_length + 1)"
    using complete_activation_kspl[OF assms(8), of "link_edge selected_link" ?target
        "global_path_search_id req" ?target bidirectional_path ?install
        "[sector_requesting_service req, snd (snd (snd selected_link))]" g2 x2] c
    by simp
  ultimately show ?thesis
    by simp
qed

lemma ipv4_adjacent_target_kspl:
  assumes "construct_unidirectional_path env (SectorEntity (sector_requesting_service req))
             (SectorEntity (host_controller_id target_host_info)) (hash_val req) None x
           = (Inr unidirectional_path, x1)"
    and "path_len unidirectional_path \<noteq> 0"
    and "alloc_mpls_label_id g = (Inr local_mpls_label, g1)"
    and "second_last (path unidirectional_path) = Inr hop"
    and "get_controller_proxy env (host_controller_id target_host_info) x1 = (Inr u, x2)"
    and "call_peer env (host_controller_id target_host_info) (global_path_search_id req)
           local_mpls_label (fst hop) (snd (snd hop)) g1 x2 = (service_activation_result, x3)"
    and "reply_success service_activation_result"
    and "reply_path_length service_activation_result = Some peer_path_length"
  shows "fst (get_known_shortest_path (SectorKey (host_controller_id target_host_info))
                (IPv4Address (fst (snd (snd (global_path_search_id req)))))
                (fst (snd (ipv4_adjacent_target env req target_host_info (g, x)))))
           = Some (peer_path_length + 1)"
  unfolding ipv4_adjacent_target_success[OF assms(1-7)]
  by (rule complete_activation_kspl[OF assms(8)])

lemma ipv4_explore_kspl:
  assumes "adjacent_sectors_ids \<noteq> []"
    and "select_candidate SectorKey adjacent_sectors_ids
           (IPv4Address (fst (snd (snd (global_path_search_id req))))) g
         = (selected_sector_id, g1)"
    and "construct_unidirectional_path env (SectorEntity (sector_requesting_service req))
           (SectorEntity selected_sector_id) (hash_val req) None x
         = (Inr unidirectional_path, x1)"
    and "path_len unidirectional_path \<noteq> 0"
    and "alloc_mpls_label_id g1 = (Inr local_mpls_label, g2)"
    and "second_last (path unidirectional_path) = Inr hop"
    and "connect_and_call_peer env selected_sector_id (global_path_search_id req)
           local_mpls_label (fst hop) (snd (snd hop)) g2 x1 = (service_activation_result, x2)"
    and "reply_success service_activation_result"
    and "reply_path_length service_activation_result = Some peer_path_length"
  shows "fst (get_known_shortest_path (SectorKey selected_sector_id)
                (IPv4Address (fst (snd (snd (global_path_search_id req)))))
                (fst (snd (explore SectorKey
                             (IPv4Address (fst (snd (snd (global_path_search_id req)))))
                             (ipv4_forward_attempt env req) adjacent_sectors_ids (g, x)))))
           = Some (peer_path_length + 1)"
proof -
  let ?target = "IPv4Address (fst (snd (snd (global_path_search_id req))))"
  let ?target_str = "IPv4Str (fst (snd (snd (global_path_search_id req))))"
  let ?install = "\<lambda>s'. if query_entity_is_sector env (entity_a unidirectional_path) (snd s')
                     \<and> query_entity_is_sector env (entity_b unidirectional_path) (snd s')
                  then sector_to_sector_mpls_flow_activation env unidirectional_path
                         (Some local_mpls_label) (mpls_label req) s'
                  else ipv4_generic_flow_activation env unidirectional_path
                         (Some local_mpls_label) (mpls_label req) None s'"
  let ?c = "complete_activation (global_path_search_id req) (SectorKey selected_sector_id)
              ?target ?target_str service_activation_result unidirectional_path ?install
              [sector_requesting_service req, selected_sector_id] (g2, x2)"
  obtain completed s3 where c: "?c = (completed, s3)"
    by (cases ?c)
  let ?outcome = "case completed of Inl ex \<Rightarrow> Inl ex | Inr answer \<Rightarrow> Inr (Some answer)"
  have a: "ipv4_forward_attempt env req selected_sector_id
             (remove1 selected_sector_id adjacent_sectors_ids) (g1, x) = (?outcome, s3)"
    by (rule ipv4_forward_attempt_success[OF assms(3-8) c])
  have b: "?outcome \<noteq> Inr None"
    by (cases completed) simp_all
  have "explore SectorKey ?target (ipv4_forward_attempt env req) adjacent_sectors_ids (g, x)
          = (?outcome, s3)"
    using assms(1) assms(2) a b
    by (rule explore_done[where attempt = "ipv4_forward_attempt env req"
          and key_of = SectorKey and selected = selected_sector_id])
  moreover have "fst (get_known_shortest_path (SectorKey selected_sector_id) ?target (fst s3))
                   = Some (peer_path_length + 1)"
    using complete_activation_kspl[OF assms(9), of "SectorKey selected_sector_id" ?target
        "global_path_search_id req" ?target_str unidirectional_path ?install
        "[sector_requesting_service req, selected_sector_id]" g2 x2] c
    by simp
  ultimately show ?thesis
    by simp
qed


text \<open>
  C8. In each of the four places where \<open>activate_scenario\<close> forwards a request to a peer,
  when the peer answers with success and path length \<open>n\<close>, the known shortest path length of
  the chosen key and the target is \<open>n + 1\<close> when the branch is left, whatever was stored
  there before, smaller or not. The four places are: the ICMPv4 branch with the target
  sector adjacent (key: the edge of the link found); an iteration of the ICMPv4 loop over
  the links to the other sectors (key: the edge of the link selected at the head of the
  iteration); the IPv4 branch with the target sector adjacent (key: the target sector); an
  iteration of the IPv4 loop over the other sectors (key: the sector selected). The
  conditions of each part say that the peer was reached and answered with success.
\<close>

theorem kspl_written_on_peer_success:
  "(explore link_edge (IPv4Address (fst (snd (snd (global_path_search_id req)))))
      (icmpv4_adjacent_path_attempt env req (host_controller_id target_host_info))
      (query_edges_to_sector env (host_controller_id target_host_info) x) (g, x)
      = (Inr (Some (found_link, found_path)), ga1, xa1) \<and>
    path_len found_path \<noteq> 0 \<and>
    alloc_mpls_label_id ga1 = (Inr label_a, ga2) \<and>
    get_controller_proxy env (host_controller_id target_host_info) xa1 = (Inr ua, xa2) \<and>
    call_peer env (host_controller_id target_host_info) (global_path_search_id req)
      label_a (fst found_link) (fst (snd found_link)) ga2 xa2 = (answer_a, xa3) \<and>
    reply_success answer_a \<and>
    reply_path_length answer_a = Some peer_path_length
    \<longrightarrow>
    fst (get_known_shortest_path (link_edge found_link)
           (IPv4Address (fst (snd (snd (global_path_search_id req)))))
           (fst (snd (icmpv4_adjacent_target env req target_host_info (g, x)))))
      = Some (peer_path_length + 1)) \<and>
   (possible_links \<noteq> [] \<and>
    select_candidate link_edge possible_links
      (IPv4Address (fst (snd (snd (global_path_search_id req))))) g = (selected_link, gb1) \<and>
    construct_bidirectional_path env (SectorEntity (sector_requesting_service req))
      (SectorEntity (snd (snd (snd selected_link)))) 100 (hash_val req)
      (Some (fst (snd (snd selected_link)))) x = (Inr bidirectional_path, xb1) \<and>
    path_len bidirectional_path \<noteq> 0 \<and>
    alloc_mpls_label_id gb1 = (Inr label_b, gb2) \<and>
    connect_and_call_peer env (snd (snd (snd selected_link))) (global_path_search_id req)
      label_b (fst selected_link) (fst (snd selected_link)) gb2 xb1 = (answer_b, xb2) \<and>
    reply_success answer_b \<and>
    reply_path_length answer_b = Some peer_path_length
    \<longrightarrow>
    fst (get_known_shortest_path (link_edge selected_link)
           (IPv4Address (fst (snd (snd (global_path_search_id req)))))
           (fst (snd (explore link_edge
                        (IPv4Address (fst (snd (snd (global_path_search_id req)))))
                        (icmpv4_forward_attempt env req) possible_links (g, x)))))
      = Some (peer_path_length + 1)) \<and>
   (construct_unidirectional_path env (SectorEntity (sector_requesting_service req))
      (SectorEntity (host_controller_id target_host_info)) (hash_val req) None x
      = (Inr path_c, xc1) \<and>
    path_len path_c \<noteq> 0 \<and>
    alloc_mpls_label_id g = (Inr label_c, gc1) \<and>
    second_last (path path_c) = Inr hop_c \<and>
    get_controller_proxy env (host_controller_id target_host_info) xc1 = (Inr uc, xc2) \<and>
    call_peer env (host_controller_id target_host_info) (global_path_search_id req)
      label_c (fst hop_c) (snd (snd hop_c)) gc1 xc2 = (answer_c, xc3) \<and>
    reply_success answer_c \<and>
    reply_path_length answer_c = Some peer_path_length
    \<longrightarrow>
    fst (get_known_shortest_path (SectorKey (host_controller_id target_host_info))
           (IPv4Address (fst (snd (snd (global_path_search_id req)))))
           (fst (snd (ipv4_adjacent_target env req target_host_info (g, x)))))
      = Some (peer_path_length + 1)) \<and>
   (adjacent_sectors_ids \<noteq> [] \<and>
    select_candidate SectorKey adjacent_sectors_ids
      (IPv4Address (fst (snd (snd (global_path_search_id req))))) g
      = (selected_sector_id, gd1) \<and>
    construct_unidirectional_path env (SectorEntity (sector_requesting_service req))
      (SectorEntity selected_sector_id) (hash_val req) None x = (Inr path_d, xd1) \<and>
    path_len path_d \<noteq> 0 \<and>
    alloc_mpls_label_id gd1 = (Inr label_d, gd2) \<and>
    second_last (path path_d) = Inr hop_d \<and>
    connect_and_call_peer env selected_sector_id (global_path_search_id req)
      label_d (fst hop_d) (snd (snd hop_d)) gd2 xd1 = (answer_d, xd2) \<and>
    reply_success answer_d \<and>
    reply_path_length answer_d = Some peer_path_length
    \<longrightarrow>
    fst (get_known_shortest_path (SectorKey selected_sector_id)
           (IPv4Address (fst (snd (snd (global_path_search_id req)))))
           (fst (snd (explore SectorKey
                        (IPv4Address (fst (snd (snd (global_path_search_id req)))))
                        (ipv4_forward_attempt env req) adjacent_sectors_ids (g, x)))))
      = Some (peer_path_length + 1))"
proof (intro conjI impI)
  assume "explore link_edge (IPv4Address (fst (snd (snd (global_path_search_id req)))))
      (icmpv4_adjacent_path_attempt env req (host_controller_id target_host_info))
      (query_edges_to_sector env (host_controller_id target_host_info) x) (g, x)
      = (Inr (Some (found_link, found_path)), ga1, xa1) \<and>
    path_len found_path \<noteq> 0 \<and>
    alloc_mpls_label_id ga1 = (Inr label_a, ga2) \<and>
    get_controller_proxy env (host_controller_id target_host_info) xa1 = (Inr ua, xa2) \<and>
    call_peer env (host_controller_id target_host_info) (global_path_search_id req)
      label_a (fst found_link) (fst (snd found_link)) ga2 xa2 = (answer_a, xa3) \<and>
    reply_success answer_a \<and>
    reply_path_length answer_a = Some peer_path_length"
  then show "fst (get_known_shortest_path (link_edge found_link)
           (IPv4Address (fst (snd (snd (global_path_search_id req)))))
           (fst (snd (icmpv4_adjacent_target env req target_host_info (g, x)))))
      = Some (peer_path_length + 1)"
    by (elim conjE) (rule icmpv4_adjacent_target_kspl; assumption)
next
  assume "possible_links \<noteq> [] \<and>
    select_candidate link_edge possible_links
      (IPv4Address (fst (snd (snd (global_path_search_id req))))) g = (selected_link, gb1) \<and>
    construct_bidirectional_path env (SectorEntity (sector_requesting_service req))
      (SectorEntity (snd (snd (snd selected_link)))) 100 (hash_val req)
      (Some (fst (snd (snd selected_link)))) x = (Inr bidirectional_path, xb1) \<and>
    path_len bidirectional_path \<noteq> 0 \<and>
    alloc_mpls_label_id gb1 = (Inr label_b, gb2) \<and>
    connect_and_call_peer env (snd (snd (snd selected_link))) (global_path_search_id req)
      label_b (fst selected_link) (fst (snd selected_link)) gb2 xb1 = (answer_b, xb2) \<and>
    reply_success answer_b \<and>
    reply_path_length answer_b = Some peer_path_length"
  then show "fst (get_known_shortest_path (link_edge selected_link)
           (IPv4Address (fst (snd (snd (global_path_search_id req)))))
           (fst (snd (explore link_edge
                        (IPv4Address (fst (snd (snd (global_path_search_id req)))))
                        (icmpv4_forward_attempt env req) possible_links (g, x)))))
      = Some (peer_path_length + 1)"
    by (elim conjE) (rule icmpv4_explore_kspl; assumption)
next
  assume "construct_unidirectional_path env (SectorEntity (sector_requesting_service req))
      (SectorEntity (host_controller_id target_host_info)) (hash_val req) None x
      = (Inr path_c, xc1) \<and>
    path_len path_c \<noteq> 0 \<and>
    alloc_mpls_label_id g = (Inr label_c, gc1) \<and>
    second_last (path path_c) = Inr hop_c \<and>
    get_controller_proxy env (host_controller_id target_host_info) xc1 = (Inr uc, xc2) \<and>
    call_peer env (host_controller_id target_host_info) (global_path_search_id req)
      label_c (fst hop_c) (snd (snd hop_c)) gc1 xc2 = (answer_c, xc3) \<and>
    reply_success answer_c \<and>
    reply_path_length answer_c = Some peer_path_length"
  then show "fst (get_known_shortest_path (SectorKey (host_controller_id target_host_info))
           (IPv4Address (fst (snd (snd (global_path_search_id req)))))
           (fst (snd (ipv4_adjacent_target env req target_host_info (g, x)))))
      = Some (peer_path_length + 1)"
    by (elim conjE) (rule ipv4_adjacent_target_kspl; assumption)
next
  assume "adjacent_sectors_ids \<noteq> [] \<and>
    select_candidate SectorKey adjacent_sectors_ids
      (IPv4Address (fst (snd (snd (global_path_search_id req))))) g
      = (selected_sector_id, gd1) \<and>
    construct_unidirectional_path env (SectorEntity (sector_requesting_service req))
      (SectorEntity selected_sector_id) (hash_val req) None x = (Inr path_d, xd1) \<and>
    path_len path_d \<noteq> 0 \<and>
    alloc_mpls_label_id gd1 = (Inr label_d, gd2) \<and>
    second_last (path path_d) = Inr hop_d \<and>
    connect_and_call_peer env selected_sector_id (global_path_search_id req)
      label_d (fst hop_d) (snd (snd hop_d)) gd2 xd1 = (answer_d, xd2) \<and>
    reply_success answer_d \<and>
    reply_path_length answer_d = Some peer_path_length"
  then show "fst (get_known_shortest_path (SectorKey selected_sector_id)
           (IPv4Address (fst (snd (snd (global_path_search_id req)))))
           (fst (snd (explore SectorKey
                        (IPv4Address (fst (snd (snd (global_path_search_id req)))))
                        (ipv4_forward_attempt env req) adjacent_sectors_ids (g, x)))))
      = Some (peer_path_length + 1)"
    by (elim conjE) (rule ipv4_explore_kspl; assumption)
qed

lemmas demo_success_eval =
  demo_env_def demo_accepting_env_def demo_acceptance_def demo_request_def demo_globals_def
  demo_known_def demo_path_def initial_globals_def link_edge_def select_candidate.simps
  get_q_value_def alloc_mpls_label_id_def call_peer_def connect_and_call_peer_def
  get_hash_val_def second_last_def Let_def

lemma demo_known_kspl:
  "fst (get_known_shortest_path (EdgeKey 10 1) (IPv4Address 6) demo_known) = Some 2"
  "fst (get_known_shortest_path (SectorKey 3) (IPv4Address 6) demo_known) = Some 2"
  by (simp_all add: get_known_shortest_path_def demo_known_def Let_def)

lemma demo_adjacent_path_known:
  "explore link_edge (IPv4Address 6)
     (icmpv4_adjacent_path_attempt (demo_accepting_env 3) (demo_request 4 ''ICMPv4'') 3)
     [(10, 1, 101), (11, 1, 102)] (demo_known, 0)
   = (Inr (Some ((10, 1, 101), demo_path (SectorEntity 2) (SectorEntity 3))),
      demo_known\<lparr>QValues := [EdgeKey 10 1 \<mapsto> [IPv4Address 6 \<mapsto> 0],
                               EdgeKey 11 1 \<mapsto> [IPv4Address 6 \<mapsto> 0]]\<rparr>, 0)"
  by (simp add: demo_success_eval icmpv4_adjacent_path_attempt_def explore.simps)

lemma demo_activation_run:
  "fst (get_known_shortest_path (EdgeKey 10 1) (IPv4Address 6)
          (fst (snd (activate_scenario (demo_accepting_env 3) (demo_request 4 ''ICMPv4'')
                       (demo_known, 0))))) = Some 8"
  by (simp add: demo_success_eval icmpv4_adjacent_path_attempt_def explore.simps
      activate_scenario_def is_scenario_active_def with_task_token_def
      register_implementation_task_def delete_implementation_task_def
      icmpv4_forward_def icmpv4_adjacent_target_def complete_activation_def
      peer_success_update_def refresh_known_shortest_path_def get_known_shortest_path_def
      set_known_shortest_path_def set_q_value_def forward_q_value_of_def
      calculate_new_qvalue_def run_installer_def set_active_scenario_def)


theorem kspl_written_on_peer_success_witness:
  "fst (get_known_shortest_path (EdgeKey 10 1) (IPv4Address 6) demo_known) = Some 2 \<and>
   fst (get_known_shortest_path (SectorKey 3) (IPv4Address 6) demo_known) = Some 2 \<and>
   fst (get_known_shortest_path (EdgeKey 10 1) (IPv4Address 6)
          (fst (snd (icmpv4_adjacent_target (demo_accepting_env 3) (demo_request 4 ''ICMPv4'')
                       \<lparr>host_controller_id = 3, host_name = ''h''\<rparr> (demo_known, 0)))))
     = Some 8 \<and>
   fst (get_known_shortest_path (EdgeKey 10 1) (IPv4Address 6)
          (fst (snd (explore link_edge (IPv4Address 6)
                       (icmpv4_forward_attempt (demo_accepting_env 3) (demo_request 4 ''ICMPv4''))
                       [(10, 1, 101, 3), (11, 1, 102, 3)] (demo_known, 0)))))
     = Some 8 \<and>
   fst (get_known_shortest_path (SectorKey 3) (IPv4Address 6)
          (fst (snd (ipv4_adjacent_target (demo_accepting_env 3) (demo_request 4 ''IPv4'')
                       \<lparr>host_controller_id = 3, host_name = ''h''\<rparr> (demo_known, 0)))))
     = Some 8 \<and>
   fst (get_known_shortest_path (SectorKey 3) (IPv4Address 6)
          (fst (snd (explore SectorKey (IPv4Address 6)
                       (ipv4_forward_attempt (demo_accepting_env 3) (demo_request 4 ''IPv4''))
                       [3] (demo_known, 0)))))
     = Some 8 \<and>
   fst (get_known_shortest_path (EdgeKey 10 1) (IPv4Address 6)
          (fst (snd (activate_scenario (demo_accepting_env 3) (demo_request 4 ''ICMPv4'')
                       (demo_known, 0)))))
     = Some 8"
proof -
  let ?env = "demo_accepting_env 3"
  let ?icmp = "demo_request 4 ''ICMPv4''" and ?ip = "demo_request 4 ''IPv4''"
  let ?info = "\<lparr>host_controller_id = 3, host_name = ''h''\<rparr>"
  let ?path = "demo_path (SectorEntity 2) (SectorEntity 3)"
  let ?ge = "demo_known\<lparr>QValues := [EdgeKey 10 1 \<mapsto> [IPv4Address 6 \<mapsto> 0],
                                    EdgeKey 11 1 \<mapsto> [IPv4Address 6 \<mapsto> 0]]\<rparr>"
  let ?gs = "demo_known\<lparr>QValues := [SectorKey 3 \<mapsto> [IPv4Address 6 \<mapsto> 0]]\<rparr>"
  have t: "IPv4Address (fst (snd (snd (global_path_search_id ?icmp)))) = IPv4Address 6"
          "IPv4Address (fst (snd (snd (global_path_search_id ?ip)))) = IPv4Address 6"
    by (simp_all add: demo_request_def)
  have hc: "host_controller_id ?info = 3"
    by simp
  have ok: "reply_success demo_acceptance" "reply_path_length demo_acceptance = Some 7"
    by (simp_all add: demo_acceptance_def)
  have len: "path_len ?path \<noteq> 0"
    by (simp add: demo_path_def)
  have a1: "explore link_edge (IPv4Address (fst (snd (snd (global_path_search_id ?icmp)))))
              (icmpv4_adjacent_path_attempt ?env ?icmp (host_controller_id ?info))
              (query_edges_to_sector ?env (host_controller_id ?info) 0) (demo_known, 0)
            = (Inr (Some ((10, 1, 101), ?path)), ?ge, 0)"
    using demo_adjacent_path_known by (simp add: demo_accepting_env_def demo_env_def demo_request_def)
  have a3: "alloc_mpls_label_id ?ge = (Inr 17, ?ge\<lparr>mpls_label_id_counter := 17\<rparr>)"
    by (simp add: demo_success_eval)
  have a4: "get_controller_proxy ?env (host_controller_id ?info) 0 = (Inr (), 0)"
    by (simp add: demo_accepting_env_def demo_env_def)
  have a5: "call_peer ?env (host_controller_id ?info) (global_path_search_id ?icmp) 17
              (fst (10 :: int, 1 :: int, 101 :: int)) (fst (snd (10 :: int, 1 :: int, 101 :: int)))
              (?ge\<lparr>mpls_label_id_counter := 17\<rparr>) 0
            = (demo_acceptance, 1)"
    by (simp add: demo_success_eval)
  have b1: "[(10, 1, 101, 3), (11, 1, 102, 3)] \<noteq> ([] :: (int \<times> int \<times> int \<times> uuid) list)"
    by simp
  have b2: "select_candidate link_edge [(10, 1, 101, 3), (11, 1, 102, 3 :: uuid)]
              (IPv4Address (fst (snd (snd (global_path_search_id ?icmp))))) demo_known
            = ((10, 1, 101, 3), ?ge)"
    by (simp add: demo_success_eval)
  have b3: "construct_bidirectional_path ?env (SectorEntity (sector_requesting_service ?icmp))
              (SectorEntity (snd (snd (snd (10 :: int, 1 :: int, 101 :: int, 3 :: uuid)))))
              100 (hash_val ?icmp)
              (Some (fst (snd (snd (10 :: int, 1 :: int, 101 :: int, 3 :: uuid))))) 0
            = (Inr ?path, 0)"
    by (simp add: demo_accepting_env_def demo_env_def demo_request_def)
  have b6: "connect_and_call_peer ?env (snd (snd (snd (10 :: int, 1 :: int, 101 :: int, 3 :: uuid))))
              (global_path_search_id ?icmp) 17
              (fst (10 :: int, 1 :: int, 101 :: int, 3 :: uuid))
              (fst (snd (10 :: int, 1 :: int, 101 :: int, 3 :: uuid)))
              (?ge\<lparr>mpls_label_id_counter := 17\<rparr>) 0
            = (demo_acceptance, 1)"
    by (simp add: demo_success_eval)
  have c1: "construct_unidirectional_path ?env (SectorEntity (sector_requesting_service ?ip))
              (SectorEntity (host_controller_id ?info)) (hash_val ?ip) None 0
            = (Inr ?path, 0)"
    by (simp add: demo_accepting_env_def demo_env_def demo_request_def)
  have c3: "alloc_mpls_label_id demo_known
            = (Inr 17, demo_known\<lparr>mpls_label_id_counter := 17\<rparr>)"
    by (simp add: demo_success_eval)
  have c4: "second_last (path ?path) = Inr (10, 1, 2)"
    by (simp add: second_last_def demo_path_def)
  have c6: "call_peer ?env (host_controller_id ?info) (global_path_search_id ?ip) 17
              (fst (10 :: int, 1 :: int, 2 :: int)) (snd (snd (10 :: int, 1 :: int, 2 :: int)))
              (demo_known\<lparr>mpls_label_id_counter := 17\<rparr>) 0
            = (demo_acceptance, 1)"
    by (simp add: demo_success_eval)
  have d1: "[3 :: uuid] \<noteq> []"
    by simp
  have d2: "select_candidate SectorKey [3 :: uuid]
              (IPv4Address (fst (snd (snd (global_path_search_id ?ip))))) demo_known
            = (3, ?gs)"
    by (simp add: demo_success_eval)
  have d3: "construct_unidirectional_path ?env (SectorEntity (sector_requesting_service ?ip))
              (SectorEntity 3) (hash_val ?ip) None 0
            = (Inr ?path, 0)"
    by (simp add: demo_accepting_env_def demo_env_def demo_request_def)
  have d5: "alloc_mpls_label_id ?gs = (Inr 17, ?gs\<lparr>mpls_label_id_counter := 17\<rparr>)"
    by (simp add: demo_success_eval)
  have d7: "connect_and_call_peer ?env 3 (global_path_search_id ?ip) 17
              (fst (10 :: int, 1 :: int, 2 :: int)) (snd (snd (10 :: int, 1 :: int, 2 :: int)))
              (?gs\<lparr>mpls_label_id_counter := 17\<rparr>) 0
            = (demo_acceptance, 1)"
    by (simp add: demo_success_eval)
  note icmp = kspl_written_on_peer_success
    [where req = ?icmp and env = ?env and target_host_info = ?info and g = demo_known
       and x = 0 and peer_path_length = 7
       and found_link = "(10, 1, 101)" and found_path = ?path and ?ga1.0 = ?ge and ?xa1.0 = 0
       and label_a = 17 and ?ga2.0 = "?ge\<lparr>mpls_label_id_counter := 17\<rparr>" and ua = "()"
       and ?xa2.0 = 0 and answer_a = demo_acceptance and ?xa3.0 = 1
       and possible_links = "[(10, 1, 101, 3), (11, 1, 102, 3)]"
       and selected_link = "(10, 1, 101, 3)" and ?gb1.0 = ?ge and bidirectional_path = ?path
       and ?xb1.0 = 0 and label_b = 17 and ?gb2.0 = "?ge\<lparr>mpls_label_id_counter := 17\<rparr>"
       and answer_b = demo_acceptance and ?xb2.0 = 1]
  note ip = kspl_written_on_peer_success
    [where req = ?ip and env = ?env and target_host_info = ?info and g = demo_known
       and x = 0 and peer_path_length = 7
       and path_c = ?path and ?xc1.0 = 0 and label_c = 17
       and ?gc1.0 = "demo_known\<lparr>mpls_label_id_counter := 17\<rparr>" and hop_c = "(10, 1, 2)"
       and uc = "()" and ?xc2.0 = 0 and answer_c = demo_acceptance and ?xc3.0 = 1
       and adjacent_sectors_ids = "[3]" and selected_sector_id = 3 and ?gd1.0 = ?gs
       and path_d = ?path and ?xd1.0 = 0 and label_d = 17
       and ?gd2.0 = "?gs\<lparr>mpls_label_id_counter := 17\<rparr>" and hop_d = "(10, 1, 2)"
       and answer_d = demo_acceptance and ?xd2.0 = 1]
  have r1: "fst (get_known_shortest_path (link_edge (10 :: int, 1 :: int, 101 :: int))
              (IPv4Address (fst (snd (snd (global_path_search_id ?icmp)))))
              (fst (snd (icmpv4_adjacent_target ?env ?icmp ?info (demo_known, 0)))))
            = Some (7 + 1)"
    using icmp a1 len a3 a4 a5 ok by blast
  have r2: "fst (get_known_shortest_path (link_edge (10 :: int, 1 :: int, 101 :: int, 3 :: uuid))
              (IPv4Address (fst (snd (snd (global_path_search_id ?icmp)))))
              (fst (snd (explore link_edge
                           (IPv4Address (fst (snd (snd (global_path_search_id ?icmp)))))
                           (icmpv4_forward_attempt ?env ?icmp)
                           [(10, 1, 101, 3), (11, 1, 102, 3)] (demo_known, 0)))))
            = Some (7 + 1)"
    using icmp b1 b2 b3 len a3 b6 ok by blast
  have r3: "fst (get_known_shortest_path (SectorKey (host_controller_id ?info))
              (IPv4Address (fst (snd (snd (global_path_search_id ?ip)))))
              (fst (snd (ipv4_adjacent_target ?env ?ip ?info (demo_known, 0)))))
            = Some (7 + 1)"
    using ip c1 len c3 c4 a4 c6 ok by blast
  have r4: "fst (get_known_shortest_path (SectorKey 3)
              (IPv4Address (fst (snd (snd (global_path_search_id ?ip)))))
              (fst (snd (explore SectorKey
                           (IPv4Address (fst (snd (snd (global_path_search_id ?ip)))))
                           (ipv4_forward_attempt ?env ?ip) [3] (demo_known, 0)))))
            = Some (7 + 1)"
    using ip d1 d2 d3 len d5 c4 d7 ok by blast
  show ?thesis
    using r1 r2 r3 r4 demo_known_kspl demo_activation_run
    by (simp add: t link_edge_def)
qed

section \<open>Properties of the activation\<close>

text \<open>
  C9, as claimed: every request whose global path search id names this controller as its
  source is answered at once with the loop-detection failure. This fails for a request with
  a negative label, which the first assertion of the handler stops, and for a request whose
  target address the registry cannot look up: the handler raises and no reply is built. The
  lookup at the registry is made before the source is compared.
\<close>

theorem source_controller_request_raises:
  "fst (global_path_search_id ((demo_request 1 ''ICMPv4'')\<lparr>mpls_label := - 1\<rparr>))
     = this_controller_id (demo_env 3 0) \<and>
   activate_scenario (demo_env 3 0) ((demo_request 1 ''ICMPv4'')\<lparr>mpls_label := - 1\<rparr>)
     (demo_globals, 0)
     = (Inl (AssertionError ''scenario_mpls_label expected to be non negative  int''),
        demo_globals, 0) \<and>
   fst (global_path_search_id (demo_request 1 ''ICMPv4''))
     = this_controller_id demo_silent_registry_env \<and>
   activate_scenario demo_silent_registry_env (demo_request 1 ''ICMPv4'') (demo_globals, 0)
     = (Inl (OtherException ''timeout''), demo_globals, 1)"
  by (simp add: activate_scenario_def demo_silent_registry_env_def demo_env_def
      demo_request_def Let_def)

text \<open>
  C9, amended. For a request whose global path search id names this controller as its source:
  a negative label, and then a negative hash, fails the assertion of that name; otherwise the
  target address is looked up at the registry, and an exception of the lookup leaves the
  handler; otherwise the reply is the failure "Path search has reached the source controller.
  Cancelling...". In all four cases no task token is registered, no label is allocated and
  the variables of the controller are as before; of the state outside them, only what the
  lookup at the registry did has changed.
\<close>

theorem activate_scenario_on_source_controller:
  assumes "fst (global_path_search_id scenario_request) = this_controller_id env"
  shows "activate_scenario env scenario_request (g, x)
           = (if mpls_label scenario_request < 0
              then (Inl (AssertionError ''scenario_mpls_label expected to be non negative  int''),
                    g, x)
              else if hash_val scenario_request < 0
              then (Inl (AssertionError ''scenario_hash_val expected to be non negative int''),
                    g, x)
              else (case query_address_info env
                           (fst (snd (snd (global_path_search_id scenario_request)))) x of
                      (Inl ex, x1) \<Rightarrow> (Inl ex, g, x1)
                    | (Inr target_host_info, x1) \<Rightarrow>
                        (Inr (ActivationFailure ReachedSourceController), g, x1)))"
  using assms by (simp add: activate_scenario_def Let_def split: prod.splits sum.splits)

theorem activate_scenario_on_source_controller_witness:
  "activate_scenario (demo_env 3 0) (demo_request 1 ''ICMPv4'') (demo_globals, 0)
     = (Inr (ActivationFailure ReachedSourceController), demo_globals, 0) \<and>
   activate_scenario (demo_env 3 0) ((demo_request 1 ''IPv4'')\<lparr>hash_val := - 5\<rparr>)
     (demo_known, 0)
     = (Inl (AssertionError ''scenario_hash_val expected to be non negative int''),
        demo_known, 0)"
proof -
  have a: "fst (global_path_search_id (demo_request 1 ''ICMPv4''))
             = this_controller_id (demo_env 3 0)"
    by (simp add: demo_request_def demo_env_def)
  have b: "fst (global_path_search_id ((demo_request 1 ''IPv4'')\<lparr>hash_val := - 5\<rparr>))
             = this_controller_id (demo_env 3 0)"
    by (simp add: demo_request_def demo_env_def)
  from activate_scenario_on_source_controller[OF a, of demo_globals 0]
    activate_scenario_on_source_controller[OF b, of demo_known 0]
  show ?thesis
    by (simp add: demo_request_def demo_env_def)
qed

text \<open>
  C10, as claimed: every well-formed request whose scenario type is neither ICMPv4 nor IPv4
  is answered with the reason "Invalid Scenario Type". This fails for a request of type MPLS
  whose source is this controller: the check of the source comes first and gives the reason.
\<close>

theorem invalid_scenario_type_counterexample:
  "snd (snd (snd (global_path_search_id (demo_request 1 ''MPLS'')))) \<notin> {''ICMPv4'', ''IPv4''} \<and>
   0 \<le> mpls_label (demo_request 1 ''MPLS'') \<and> 0 \<le> hash_val (demo_request 1 ''MPLS'') \<and>
   fst (activate_scenario (demo_env 3 0) (demo_request 1 ''MPLS'') (demo_globals, 0))
     = Inr (ActivationFailure ReachedSourceController) \<and>
   fst (activate_scenario (demo_env 3 0) (demo_request 1 ''MPLS'') (demo_globals, 0))
     \<noteq> Inr (ActivationFailure
              (InvalidScenarioType (global_path_search_id (demo_request 1 ''MPLS'')) ''MPLS''))"
  by (simp add: activate_scenario_def demo_env_def demo_request_def Let_def)

text \<open>
  C10, amended. For a request whose scenario type is neither ICMPv4 nor IPv4 (MPLS included):
  a negative label, and then a negative hash, fails the assertion of that name; otherwise
  the target address is looked up at the registry, and an exception of the lookup leaves the
  handler; otherwise the reply is a failure, whose reason is "Path search has reached the
  source controller. Cancelling..." when the source is this controller, else "Scenario with
  ID ... is already implemented." when the scenario is active, else "Invalid Scenario Type".
  In every case the variables of the controller are as before; of the state outside them,
  only what the lookup at the registry did has changed.
\<close>

theorem invalid_scenario_type_rejected:
  assumes "snd (snd (snd (global_path_search_id scenario_request))) \<noteq> ''ICMPv4''"
    and "snd (snd (snd (global_path_search_id scenario_request))) \<noteq> ''IPv4''"
  shows "activate_scenario env scenario_request (g, x)
           = (if mpls_label scenario_request < 0
              then (Inl (AssertionError ''scenario_mpls_label expected to be non negative  int''),
                    g, x)
              else if hash_val scenario_request < 0
              then (Inl (AssertionError ''scenario_hash_val expected to be non negative int''),
                    g, x)
              else (case query_address_info env
                           (fst (snd (snd (global_path_search_id scenario_request)))) x of
                      (Inl ex, x1) \<Rightarrow> (Inl ex, g, x1)
                    | (Inr target_host_info, x1) \<Rightarrow>
                        (Inr (ActivationFailure
                                (if fst (global_path_search_id scenario_request)
                                      = this_controller_id env
                                 then ReachedSourceController
                                 else if is_scenario_active
                                           (global_path_search_id scenario_request) g
                                 then AlreadyImplemented (global_path_search_id scenario_request)
                                 else InvalidScenarioType
                                        (global_path_search_id scenario_request)
                                        (snd (snd (snd (global_path_search_id
                                                          scenario_request)))))),
                         g, x1)))"
  using assms by (simp add: activate_scenario_def Let_def split: prod.splits sum.splits)

theorem invalid_scenario_type_rejected_witness:
  "activate_scenario (demo_env 3 0) (demo_request 4 ''MPLS'') (demo_globals, 0)
     = (Inr (ActivationFailure (InvalidScenarioType (4, 5, 6, ''MPLS'') ''MPLS'')),
        demo_globals, 0) \<and>
   activate_scenario (demo_env 3 0) (demo_request 4 ''MPLS'')
     (demo_globals\<lparr>active_scenarios := [(4, 5, 6, ''MPLS'') \<mapsto> ([7], [2])]\<rparr>, 0)
     = (Inr (ActivationFailure (AlreadyImplemented (4, 5, 6, ''MPLS''))),
        demo_globals\<lparr>active_scenarios := [(4, 5, 6, ''MPLS'') \<mapsto> ([7], [2])]\<rparr>, 0) \<and>
   activate_scenario demo_silent_registry_env (demo_request 4 ''MPLS'') (demo_globals, 0)
     = (Inl (OtherException ''timeout''), demo_globals, 1)"
proof -
  have a: "snd (snd (snd (global_path_search_id (demo_request 4 ''MPLS'')))) \<noteq> ''ICMPv4''"
          "snd (snd (snd (global_path_search_id (demo_request 4 ''MPLS'')))) \<noteq> ''IPv4''"
    by (simp_all add: demo_request_def)
  from invalid_scenario_type_rejected[OF a, of "demo_env 3 0" demo_globals 0]
    invalid_scenario_type_rejected[OF a, of "demo_env 3 0"
      "demo_globals\<lparr>active_scenarios := [(4, 5, 6, ''MPLS'') \<mapsto> ([7], [2])]\<rparr>" 0]
    invalid_scenario_type_rejected[OF a, of demo_silent_registry_env demo_globals 0]
  show ?thesis
    by (simp add: demo_request_def demo_env_def demo_silent_registry_env_def
        is_scenario_active_def demo_globals_def initial_globals_def)
qed

section \<open>Properties of the termination\<close>

lemma terminate_adjacent_sectors_prefix:
  assumes "\<forall>sector_id\<in>set pre.
             (\<forall>y. fst (get_controller_proxy env sector_id y) = Inr ()) \<and>
             (\<forall>y. \<exists>res. fst (proxy_terminate_scenario env sector_id gpsid
                                (this_controller_id env) y) = Inr res)"
  shows "\<exists>x'. terminate_adjacent_sectors env gpsid (pre @ rest) (called, x)
                = terminate_adjacent_sectors env gpsid rest (called @ pre, x')"
  using assms
proof (induction pre arbitrary: called x)
  case Nil
  show ?case by auto
next
  case (Cons sector_id pre)
  obtain x1 where p: "get_controller_proxy env sector_id x = (Inr (), x1)"
    using Cons.prems by (metis list.set_intros(1) prod.collapse)
  obtain res x2 where
    t: "proxy_terminate_scenario env sector_id gpsid (this_controller_id env) x1 = (Inr res, x2)"
    using Cons.prems by (metis list.set_intros(1) prod.collapse)
  have rest: "\<forall>sector_id\<in>set pre.
             (\<forall>y. fst (get_controller_proxy env sector_id y) = Inr ()) \<and>
             (\<forall>y. \<exists>res. fst (proxy_terminate_scenario env sector_id gpsid
                                (this_controller_id env) y) = Inr res)"
    using Cons.prems by simp
  from Cons.IH[OF rest, of "called @ [sector_id]" x2] show ?case
    by (simp add: p t)
qed

lemma terminate_adjacent_sectors_raise:
  assumes "\<forall>y. fst (get_controller_proxy env sector_id y) = Inr ()"
    and "\<forall>y. fst (proxy_terminate_scenario env sector_id gpsid (this_controller_id env) y)
              = Inl ex"
  shows "\<exists>x'. terminate_adjacent_sectors env gpsid (sector_id # sectors) (called, x)
                = (Inl ex, called @ [sector_id], x')"
proof -
  obtain x1 where p: "get_controller_proxy env sector_id x = (Inr (), x1)"
    using assms(1) by (metis prod.collapse)
  obtain x2 where
    t: "proxy_terminate_scenario env sector_id gpsid (this_controller_id env) x1 = (Inl ex, x2)"
    using assms(2) by (metis prod.collapse)
  show ?thesis
    by (simp add: p t)
qed

lemma terminate_adjacent_sectors_never:
  assumes "sector_id \<in> set sectors"
    and "\<forall>y. \<exists>ex. fst (proxy_terminate_scenario env sector_id gpsid
                           (this_controller_id env) y) = Inl ex"
  shows "\<exists>ex. fst (terminate_adjacent_sectors env gpsid sectors (called, x)) = Inl ex"
  using assms(1)
proof (induction sectors arbitrary: called x)
  case Nil
  then show ?case by simp
next
  case (Cons s sectors)
  obtain o1 x1 where p: "get_controller_proxy env s x = (o1, x1)"
    by (cases "get_controller_proxy env s x")
  obtain o2 x2 where
    t: "proxy_terminate_scenario env s gpsid (this_controller_id env) x1 = (o2, x2)"
    by (cases "proxy_terminate_scenario env s gpsid (this_controller_id env) x1")
  show ?case
  proof (cases o1)
    case (Inl e)
    then show ?thesis by (simp add: p)
  next
    case (Inr u)
    note o1 = Inr
    show ?thesis
    proof (cases o2)
      case (Inl e)
      then show ?thesis by (simp add: p t o1)
    next
      case (Inr res)
      have "s \<noteq> sector_id"
        using assms(2) t Inr by (metis Inl_Inr_False fst_conv)
      then have "sector_id \<in> set sectors"
        using Cons.prems by simp
      from Cons.IH[OF this, of "called @ [s]" x2] show ?thesis
        by (simp add: p t o1 Inr)
    qed
  qed
qed

lemma set_sectors_to_contact:
  "set (sectors_to_contact env adjacent_sectors_ids requesting_sector_id)
     = set adjacent_sectors_ids - {requesting_sector_id}"
  by (auto simp: sectors_to_contact_def)

lemma distinct_sectors_to_contact:
  "distinct (sectors_to_contact env adjacent_sectors_ids requesting_sector_id)"
  by (simp add: sectors_to_contact_def)

lemma terminate_scenario_globals:
  assumes "active_scenarios g (t_global_path_search_id scenario_request)
             = Some (local_scenarios_ids_list, adjacent_sectors_ids)"
  shows "fst (snd (snd (terminate_scenario env scenario_request (g, x))))
           = g\<lparr>active_scenarios :=
                  (active_scenarios g)(t_global_path_search_id scenario_request := None),
                mapped_services :=
                  remove_local_scenarios local_scenarios_ids_list (mapped_services g)\<rparr>"
  using assms
  by (simp add: terminate_scenario_def is_scenario_active_def get_active_scenario_def Let_def
      split: prod.splits sum.splits)

lemma terminate_scenario_result:
  assumes "active_scenarios g (t_global_path_search_id scenario_request)
             = Some (local_scenarios_ids_list, adjacent_sectors_ids)"
    and "terminate_adjacent_sectors env (t_global_path_search_id scenario_request)
           (sectors_to_contact env adjacent_sectors_ids
              (t_requesting_sector_id scenario_request)) ([], x) = (outcome, called, x')"
  shows "fst (terminate_scenario env scenario_request (g, x))
           = (case outcome of
                Inl ex \<Rightarrow> Inl (t_global_path_search_id scenario_request, ex)
              | Inr u \<Rightarrow> Inr (TerminationSuccess (t_global_path_search_id scenario_request)))"
    and "fst (snd (terminate_scenario env scenario_request (g, x))) = called"
  using assms
  by (simp_all add: terminate_scenario_def is_scenario_active_def get_active_scenario_def Let_def
      split: sum.splits)


lemmas demo_terminate_eval =
  terminate_scenario_def is_scenario_active_def get_active_scenario_def Let_def
  demo_active_def demo_terminate_def demo_env_def demo_globals_def initial_globals_def
  remove_local_scenarios_def sectors_to_contact_def

text \<open>
  C3, as claimed: when a peer call fails during termination, the failure is only logged and
  the handler still returns success after calling every sector. This fails when the call to
  sector 4 raises: the handler raises in turn, and sector 3, which comes after sector 4 in
  the set, is never called. The record is popped all the same.
\<close>

theorem terminate_scenario_peer_exception:
  "is_scenario_active (t_global_path_search_id demo_terminate) demo_active \<and>
   sectors_to_contact (demo_env 3 4) [2, 3, 4] (t_requesting_sector_id demo_terminate) = [4, 3] \<and>
   fst (terminate_scenario (demo_env 3 4) demo_terminate (demo_active, 0))
     = Inl ((4, 5, 6, ''ICMPv4''), OtherException ''Socket Closed'') \<and>
   fst (snd (terminate_scenario (demo_env 3 4) demo_terminate (demo_active, 0))) = [4] \<and>
   \<not> is_scenario_active (t_global_path_search_id demo_terminate)
       (fst (snd (snd (terminate_scenario (demo_env 3 4) demo_terminate (demo_active, 0)))))"
  by (simp add: demo_terminate_eval)

text \<open>
  C3, amended. For an active scenario, \<open>terminate_scenario\<close> pops the record and removes
  the entries of \<open>mapped_services\<close> that belong to it, and nothing puts them back, whatever
  the peers do. The sectors of the record other than the requester are then contacted one
  after the other, each once, in the order in which the set of them is iterated. When for
  each of them, in whatever state it is contacted, a proxy is acquired and the call returns
  an answer, be it a refusal, the handler returns success and has called exactly those
  sectors. When the sectors before some sector in that order answer in this way, a proxy to
  that sector is acquired and the call to it raises an exception, in whatever state it is
  contacted, the handler raises with that exception, having called the sectors up to that
  one and none after it. And when the call to some sector of the record other than the
  requester raises whenever it is made, the handler does not return success in any order: it
  raises.
\<close>

theorem terminate_scenario_peers:
  assumes "active_scenarios g (t_global_path_search_id scenario_request)
             = Some (local_scenarios_ids_list, adjacent_sectors_ids)"
  shows "active_scenarios (fst (snd (snd (terminate_scenario env scenario_request (g, x)))))
           = (active_scenarios g)(t_global_path_search_id scenario_request := None) \<and>
         mapped_services (fst (snd (snd (terminate_scenario env scenario_request (g, x)))))
           = remove_local_scenarios local_scenarios_ids_list (mapped_services g) \<and>
         ((\<forall>sector_id \<in> set adjacent_sectors_ids - {t_requesting_sector_id scenario_request}.
             (\<forall>y. fst (get_controller_proxy env sector_id y) = Inr ()) \<and>
             (\<forall>y. \<exists>res. fst (proxy_terminate_scenario env sector_id
                                (t_global_path_search_id scenario_request)
                                (this_controller_id env) y) = Inr res)) \<longrightarrow>
          fst (terminate_scenario env scenario_request (g, x))
            = Inr (TerminationSuccess (t_global_path_search_id scenario_request)) \<and>
          fst (snd (terminate_scenario env scenario_request (g, x)))
            = sectors_to_contact env adjacent_sectors_ids
                (t_requesting_sector_id scenario_request) \<and>
          distinct (fst (snd (terminate_scenario env scenario_request (g, x)))) \<and>
          set (fst (snd (terminate_scenario env scenario_request (g, x))))
            = set adjacent_sectors_ids - {t_requesting_sector_id scenario_request}) \<and>
         (sectors_to_contact env adjacent_sectors_ids (t_requesting_sector_id scenario_request)
            = before @ failing # after \<and>
          (\<forall>sector_id \<in> set before.
             (\<forall>y. fst (get_controller_proxy env sector_id y) = Inr ()) \<and>
             (\<forall>y. \<exists>res. fst (proxy_terminate_scenario env sector_id
                                (t_global_path_search_id scenario_request)
                                (this_controller_id env) y) = Inr res)) \<and>
          (\<forall>y. fst (get_controller_proxy env failing y) = Inr ()) \<and>
          (\<forall>y. fst (proxy_terminate_scenario env failing
                       (t_global_path_search_id scenario_request) (this_controller_id env) y)
                 = Inl ex) \<longrightarrow>
          fst (terminate_scenario env scenario_request (g, x))
            = Inl (t_global_path_search_id scenario_request, ex) \<and>
          fst (snd (terminate_scenario env scenario_request (g, x))) = before @ [failing]) \<and>
         (down \<in> set adjacent_sectors_ids - {t_requesting_sector_id scenario_request} \<and>
          (\<forall>y. \<exists>raised. fst (proxy_terminate_scenario env down
                                 (t_global_path_search_id scenario_request)
                                 (this_controller_id env) y) = Inl raised) \<longrightarrow>
          (\<exists>raised. fst (terminate_scenario env scenario_request (g, x))
                       = Inl (t_global_path_search_id scenario_request, raised)))"
proof (intro conjI impI)
  show "active_scenarios (fst (snd (snd (terminate_scenario env scenario_request (g, x)))))
           = (active_scenarios g)(t_global_path_search_id scenario_request := None)"
    by (simp add: terminate_scenario_globals[OF assms])
  show "mapped_services (fst (snd (snd (terminate_scenario env scenario_request (g, x)))))
           = remove_local_scenarios local_scenarios_ids_list (mapped_services g)"
    by (simp add: terminate_scenario_globals[OF assms])
next
  let ?gpsid = "t_global_path_search_id scenario_request"
  let ?sectors = "sectors_to_contact env adjacent_sectors_ids
                    (t_requesting_sector_id scenario_request)"
  assume h: "\<forall>sector_id \<in> set adjacent_sectors_ids - {t_requesting_sector_id scenario_request}.
             (\<forall>y. fst (get_controller_proxy env sector_id y) = Inr ()) \<and>
             (\<forall>y. \<exists>res. fst (proxy_terminate_scenario env sector_id ?gpsid
                                (this_controller_id env) y) = Inr res)"
  have h': "\<forall>sector_id \<in> set ?sectors.
             (\<forall>y. fst (get_controller_proxy env sector_id y) = Inr ()) \<and>
             (\<forall>y. \<exists>res. fst (proxy_terminate_scenario env sector_id ?gpsid
                                (this_controller_id env) y) = Inr res)"
    using h unfolding set_sectors_to_contact .
  obtain x' where
    t: "terminate_adjacent_sectors env ?gpsid ?sectors ([], x) = (Inr (), ?sectors, x')"
    using terminate_adjacent_sectors_prefix[OF h', of "[]" "[]" x] by auto
  show "fst (terminate_scenario env scenario_request (g, x)) = Inr (TerminationSuccess ?gpsid)"
    using terminate_scenario_result(1)[OF assms t] by simp
  show c: "fst (snd (terminate_scenario env scenario_request (g, x))) = ?sectors"
    using terminate_scenario_result(2)[OF assms t] .
  show "distinct (fst (snd (terminate_scenario env scenario_request (g, x))))"
    unfolding c by (rule distinct_sectors_to_contact)
  show "set (fst (snd (terminate_scenario env scenario_request (g, x))))
          = set adjacent_sectors_ids - {t_requesting_sector_id scenario_request}"
    unfolding c by (rule set_sectors_to_contact)
next
  let ?gpsid = "t_global_path_search_id scenario_request"
  assume h: "sectors_to_contact env adjacent_sectors_ids (t_requesting_sector_id scenario_request)
            = before @ failing # after \<and>
          (\<forall>sector_id \<in> set before.
             (\<forall>y. fst (get_controller_proxy env sector_id y) = Inr ()) \<and>
             (\<forall>y. \<exists>res. fst (proxy_terminate_scenario env sector_id ?gpsid
                                (this_controller_id env) y) = Inr res)) \<and>
          (\<forall>y. fst (get_controller_proxy env failing y) = Inr ()) \<and>
          (\<forall>y. fst (proxy_terminate_scenario env failing ?gpsid (this_controller_id env) y)
                 = Inl ex)"
  then have s: "sectors_to_contact env adjacent_sectors_ids
                  (t_requesting_sector_id scenario_request) = before @ failing # after"
    and b: "\<forall>sector_id \<in> set before.
             (\<forall>y. fst (get_controller_proxy env sector_id y) = Inr ()) \<and>
             (\<forall>y. \<exists>res. fst (proxy_terminate_scenario env sector_id ?gpsid
                                (this_controller_id env) y) = Inr res)"
    and p: "\<forall>y. fst (get_controller_proxy env failing y) = Inr ()"
    and r: "\<forall>y. fst (proxy_terminate_scenario env failing ?gpsid (this_controller_id env) y)
                 = Inl ex"
    by blast+
  obtain x1 where
    t1: "terminate_adjacent_sectors env ?gpsid (before @ failing # after) ([], x)
           = terminate_adjacent_sectors env ?gpsid (failing # after) ([] @ before, x1)"
    using terminate_adjacent_sectors_prefix[OF b, of "failing # after" "[]" x] by blast
  obtain x2 where
    t2: "terminate_adjacent_sectors env ?gpsid (failing # after) ([] @ before, x1)
           = (Inl ex, ([] @ before) @ [failing], x2)"
    using terminate_adjacent_sectors_raise[OF p r, of after "[] @ before" x1] by blast
  have t: "terminate_adjacent_sectors env ?gpsid
             (sectors_to_contact env adjacent_sectors_ids
                (t_requesting_sector_id scenario_request)) ([], x)
           = (Inl ex, before @ [failing], x2)"
    unfolding s using t1 t2 by simp
  show "fst (terminate_scenario env scenario_request (g, x)) = Inl (?gpsid, ex)"
    using terminate_scenario_result(1)[OF assms t] by simp
  show "fst (snd (terminate_scenario env scenario_request (g, x))) = before @ [failing]"
    using terminate_scenario_result(2)[OF assms t] .
next
  let ?gpsid = "t_global_path_search_id scenario_request"
  let ?sectors = "sectors_to_contact env adjacent_sectors_ids
                    (t_requesting_sector_id scenario_request)"
  assume h: "down \<in> set adjacent_sectors_ids - {t_requesting_sector_id scenario_request} \<and>
          (\<forall>y. \<exists>raised. fst (proxy_terminate_scenario env down ?gpsid
                                 (this_controller_id env) y) = Inl raised)"
  then have m: "down \<in> set ?sectors"
    and r: "\<forall>y. \<exists>raised. fst (proxy_terminate_scenario env down ?gpsid
                                 (this_controller_id env) y) = Inl raised"
    unfolding set_sectors_to_contact by blast+
  obtain raised where
    e: "fst (terminate_adjacent_sectors env ?gpsid ?sectors ([], x)) = Inl raised"
    using terminate_adjacent_sectors_never[OF m r, of "[]" x] by blast
  obtain called x' where
    t: "terminate_adjacent_sectors env ?gpsid ?sectors ([], x) = (Inl raised, called, x')"
    using e by (cases "terminate_adjacent_sectors env ?gpsid ?sectors ([], x)") auto
  show "\<exists>raised. fst (terminate_scenario env scenario_request (g, x)) = Inl (?gpsid, raised)"
    using terminate_scenario_result(1)[OF assms t] by auto
qed

theorem terminate_scenario_peers_witness:
  "active_scenarios demo_active (t_global_path_search_id demo_terminate) = Some ([7], [2, 3, 4]) \<and>
   sectors_to_contact (demo_env 3 3) [2, 3, 4] (t_requesting_sector_id demo_terminate) = [4, 3] \<and>
   active_scenarios (fst (snd (snd (terminate_scenario (demo_env 3 0) demo_terminate
                                      (demo_active, 0)))))
     = (active_scenarios demo_active)(t_global_path_search_id demo_terminate := None) \<and>
   mapped_services (fst (snd (snd (terminate_scenario (demo_env 3 0) demo_terminate
                                     (demo_active, 0)))))
     = [((''IPv4'', ''ICMP''), [((''c'', ''d''), 8)])] \<and>
   fst (terminate_scenario (demo_env 3 0) demo_terminate (demo_active, 0))
     = Inr (TerminationSuccess (t_global_path_search_id demo_terminate)) \<and>
   fst (snd (terminate_scenario (demo_env 3 0) demo_terminate (demo_active, 0))) = [4, 3] \<and>
   fst (terminate_scenario (demo_env 3 3) demo_terminate (demo_active, 0))
     = Inl (t_global_path_search_id demo_terminate, OtherException ''Socket Closed'') \<and>
   fst (snd (terminate_scenario (demo_env 3 3) demo_terminate (demo_active, 0))) = [4, 3] \<and>
   (\<exists>raised. fst (terminate_scenario (demo_env 3 4) demo_terminate (demo_active, 0))
                = Inl (t_global_path_search_id demo_terminate, raised))"
proof -
  let ?gpsid = "t_global_path_search_id demo_terminate"
  have a: "active_scenarios demo_active ?gpsid = Some ([7], [2, 3, 4])"
    by (simp add: demo_active_def demo_terminate_def)
  have s: "sectors_to_contact (demo_env 3 0) [2, 3, 4] (t_requesting_sector_id demo_terminate)
             = [4, 3]"
          "sectors_to_contact (demo_env 3 3) [2, 3, 4] (t_requesting_sector_id demo_terminate)
             = [] @ [4, 3]"
          "sectors_to_contact (demo_env 3 3) [2, 3, 4] (t_requesting_sector_id demo_terminate)
             = [4] @ 3 # []"
    by (simp_all add: sectors_to_contact_def demo_env_def demo_terminate_def)
  have b: "\<forall>sector_id \<in> set [2, 3, 4] - {t_requesting_sector_id demo_terminate}.
             (\<forall>y. fst (get_controller_proxy (demo_env 3 0) sector_id y) = Inr ()) \<and>
             (\<forall>y. \<exists>res. fst (proxy_terminate_scenario (demo_env 3 0) sector_id ?gpsid
                                (this_controller_id (demo_env 3 0)) y) = Inr res)"
    by (auto simp: demo_env_def demo_terminate_def)
  have c: "\<forall>sector_id \<in> set [4].
             (\<forall>y. fst (get_controller_proxy (demo_env 3 3) sector_id y) = Inr ()) \<and>
             (\<forall>y. \<exists>res. fst (proxy_terminate_scenario (demo_env 3 3) sector_id ?gpsid
                                (this_controller_id (demo_env 3 3)) y) = Inr res)"
    by (auto simp: demo_env_def demo_terminate_def)
  have d: "\<forall>y. fst (get_controller_proxy (demo_env 3 3) 3 y) = Inr ()"
          "\<forall>y. fst (proxy_terminate_scenario (demo_env 3 3) 3 ?gpsid
                       (this_controller_id (demo_env 3 3)) y)
                 = Inl (OtherException ''Socket Closed'')"
    by (simp_all add: demo_env_def)
  have e: "4 \<in> set [2, 3, 4] - {t_requesting_sector_id demo_terminate}"
          "\<forall>y. \<exists>raised. fst (proxy_terminate_scenario (demo_env 3 4) 4 ?gpsid
                                 (this_controller_id (demo_env 3 4)) y) = Inl raised"
    by (simp_all add: demo_env_def demo_terminate_def)
  have f: "remove_local_scenarios [7] (mapped_services demo_active)
             = [((''IPv4'', ''ICMP''), [((''c'', ''d''), 8)])]"
    by (simp add: remove_local_scenarios_def demo_active_def)
  note all = terminate_scenario_peers[OF a, of "demo_env 3 0" 0]
  note one = terminate_scenario_peers[OF a, of "demo_env 3 3" 0 "[4]" 3 "[]"
      "OtherException ''Socket Closed''"]
  note never = terminate_scenario_peers[OF a, of "demo_env 3 4" 0 _ _ _ _ 4]
  have r1: "active_scenarios (fst (snd (snd (terminate_scenario (demo_env 3 0) demo_terminate
                                      (demo_active, 0)))))
     = (active_scenarios demo_active)(?gpsid := None)"
    and r2: "mapped_services (fst (snd (snd (terminate_scenario (demo_env 3 0) demo_terminate
                                     (demo_active, 0)))))
     = remove_local_scenarios [7] (mapped_services demo_active)"
    and r3: "fst (terminate_scenario (demo_env 3 0) demo_terminate (demo_active, 0))
     = Inr (TerminationSuccess ?gpsid)"
    and r4: "fst (snd (terminate_scenario (demo_env 3 0) demo_terminate (demo_active, 0)))
     = sectors_to_contact (demo_env 3 0) [2, 3, 4] (t_requesting_sector_id demo_terminate)"
    using all b by blast+
  have r5: "fst (terminate_scenario (demo_env 3 3) demo_terminate (demo_active, 0))
     = Inl (?gpsid, OtherException ''Socket Closed'')"
    and r6: "fst (snd (terminate_scenario (demo_env 3 3) demo_terminate (demo_active, 0)))
     = [4] @ [3]"
    using one s(3) c d by blast+
  have r7: "\<exists>raised. fst (terminate_scenario (demo_env 3 4) demo_terminate (demo_active, 0))
                = Inl (?gpsid, raised)"
    using never e by blast
  show ?thesis
    using a s(1) s(2) f r1 r2 r3 r4 r5 r6 r7 by simp
qed

section \<open>Properties of the exploration\<close>















end
